theory Spec2Isabelle
  imports Complex_Main
begin

section \<open>Tables of the two SQLite stores\<close>

text \<open>
  A table is the list of its rows in insertion (rowid) order. The three ways
  the trackers write rows are modelled on such lists:
  \<^item> \<open>INSERT OR REPLACE\<close>: a row with the same primary key is deleted, the new
    row is appended;
  \<^item> \<open>INSERT OR IGNORE\<close>: the new row is dropped when its primary key is taken;
  \<^item> plain \<open>INSERT\<close>: a taken primary key raises \<open>sqlite3.IntegrityError\<close>.
  \<open>cursor.executemany\<close> runs the statement once per parameter tuple, in order.
\<close>

datatype error = IntegrityError | ZeroDivisionError

definition insert_or_replace :: "('r \<Rightarrow> 'k) \<Rightarrow> 'r \<Rightarrow> 'r list \<Rightarrow> 'r list" where
  "insert_or_replace key r t = filter (\<lambda>x. key x \<noteq> key r) t @ [r]"

definition insert_or_ignore :: "('r \<Rightarrow> 'k) \<Rightarrow> 'r \<Rightarrow> 'r list \<Rightarrow> 'r list" where
  "insert_or_ignore key r t = (if \<exists>x \<in> set t. key x = key r then t else t @ [r])"

fun insert_many :: "('r \<Rightarrow> 'k) \<Rightarrow> 'r list \<Rightarrow> 'r list \<Rightarrow> error + 'r list" where
  "insert_many key [] t = Inr t"
| "insert_many key (r # rs) t =
     (if \<exists>x \<in> set t. key x = key r then Inl IntegrityError
      else insert_many key rs (t @ [r]))"

definition executemany :: "('r \<Rightarrow> 'r list \<Rightarrow> 'r list) \<Rightarrow> 'r list \<Rightarrow> 'r list \<Rightarrow> 'r list" where
  "executemany stmt rows t = fold stmt rows t"

text \<open>
  A Python \<open>dict\<close> built by a comprehension over key/value pairs: a key seen
  again keeps its position and takes the later value.
\<close>

definition dict_set :: "'k \<Rightarrow> 'v \<Rightarrow> ('k \<times> 'v) list \<Rightarrow> ('k \<times> 'v) list" where
  "dict_set k v d =
     (if k \<in> fst ` set d then map (\<lambda>(k', v'). if k' = k then (k', v) else (k', v')) d
      else d @ [(k, v)])"

definition dict_of :: "('k \<times> 'v) list \<Rightarrow> ('k \<times> 'v) list" where
  "dict_of kvs = fold (\<lambda>(k, v). dict_set k v) kvs []"

section \<open>The auction tracker (utils/auctions.py)\<close>

text \<open>
  One auction of a poll, as the upstream API delivers it (the keys read by
  \<open>store_auctions\<close>). Every key is taken to be present with a value of its
  type; strings are byte strings.
\<close>

record listing =
  l_uuid :: string
  l_auctioneer :: string
  l_profile_id :: string
  l_item_name :: string
  l_tier :: string
  l_category :: string
  l_starting_bid :: int
  l_highest_bid_amount :: int
  l_bin :: bool
  l_start :: int
  l_end :: int
  l_last_updated :: int
  l_claimed :: bool

text \<open>Rows of \<open>auctions\<close> (primary key \<open>uuid\<close>).\<close>

record auction_row =
  uuid :: string
  auctioneer :: string
  profile_id :: string
  item_name :: string
  tier :: string
  category :: string
  starting_bid :: int
  highest_bid_amount :: int
  bin :: int
  start_time :: int
  end_time :: int
  last_updated :: int
  claimed :: int
  fetch_timestamp :: int

text \<open>Rows of \<open>auction_history\<close> (primary key \<open>(uuid, fetch_timestamp)\<close>).\<close>

record history_row =
  h_uuid :: string
  h_item_name :: string
  h_tier :: string
  h_starting_bid :: int
  h_bin :: int
  h_claimed :: int
  h_end_time :: int
  h_fetch_timestamp :: int

text \<open>Rows of \<open>auction_sales\<close> (primary key \<open>uuid\<close>).\<close>

record sale_row =
  s_uuid :: string
  s_item_name :: string
  s_tier :: string
  price :: int
  first_seen :: int
  last_seen :: int
  sold_timestamp :: int

record auction_db =
  auctions :: "auction_row list"
  auction_history :: "history_row list"
  auction_sales :: "sale_row list"

text \<open>The state \<open>setup_database\<close> leaves on a fresh file.\<close>

definition empty_auction_db :: auction_db where
  "empty_auction_db = \<lparr>auctions = [], auction_history = [], auction_sales = []\<rparr>"

subsection \<open>store_auctions\<close>

text \<open>
  \<open>SELECT uuid, item_name, tier, starting_bid, fetch_timestamp FROM auctions
  WHERE bin = 1 AND claimed = 0\<close>, turned into the dict \<open>previous_auctions\<close>.
\<close>

definition previous_auctions :: "auction_db \<Rightarrow> (string \<times> string \<times> string \<times> int \<times> int) list" where
  "previous_auctions db =
     dict_of (map (\<lambda>r. (uuid r, item_name r, tier r, starting_bid r, fetch_timestamp r))
                  (filter (\<lambda>r. bin r = 1 \<and> claimed r = 0) (auctions db)))"

definition current_uuids :: "listing list \<Rightarrow> string set" where
  "current_uuids poll = set (map l_uuid poll)"

definition auction_tuple :: "int \<Rightarrow> listing \<Rightarrow> auction_row" where
  "auction_tuple fetch_ts a =
     \<lparr>uuid = l_uuid a, auctioneer = l_auctioneer a, profile_id = l_profile_id a,
      item_name = l_item_name a, tier = l_tier a, category = l_category a,
      starting_bid = l_starting_bid a, highest_bid_amount = l_highest_bid_amount a,
      bin = (if l_bin a then 1 else 0), start_time = l_start a, end_time = l_end a,
      last_updated = l_last_updated a, claimed = (if l_claimed a then 1 else 0),
      fetch_timestamp = fetch_ts\<rparr>"

definition history_tuple :: "int \<Rightarrow> listing \<Rightarrow> history_row" where
  "history_tuple fetch_ts a =
     \<lparr>h_uuid = l_uuid a, h_item_name = l_item_name a, h_tier = l_tier a,
      h_starting_bid = l_starting_bid a, h_bin = (if l_bin a then 1 else 0),
      h_claimed = (if l_claimed a then 1 else 0), h_end_time = l_end a,
      h_fetch_timestamp = fetch_ts\<rparr>"

definition auction_data :: "int \<Rightarrow> listing list \<Rightarrow> auction_row list" where
  "auction_data fetch_ts poll = map (auction_tuple fetch_ts) poll"

definition history_data :: "int \<Rightarrow> listing list \<Rightarrow> history_row list" where
  "history_data fetch_ts poll =
     map (history_tuple fetch_ts) (filter (\<lambda>a. l_bin a \<and> \<not> l_claimed a) poll)"

definition sale_tuple :: "int \<Rightarrow> string \<times> string \<times> string \<times> int \<times> int \<Rightarrow> sale_row" where
  "sale_tuple fetch_ts e =
     (case e of (u, nm, tr, pr, seen) \<Rightarrow>
        \<lparr>s_uuid = u, s_item_name = nm, s_tier = tr, price = pr,
         first_seen = seen, last_seen = seen, sold_timestamp = fetch_ts\<rparr>)"

text \<open>
  \<open>sold_uuids = set(previous_auctions.keys()) - current_uuids\<close>, and one tuple
  of \<open>sales_data\<close> per sold uuid, read from \<open>previous_auctions[uuid]\<close>. Python
  leaves the iteration order of the set open; the model takes the order of the
  dict.
\<close>

definition sold_entries ::
  "(string \<times> string \<times> string \<times> int \<times> int) list \<Rightarrow> listing list \<Rightarrow>
   (string \<times> string \<times> string \<times> int \<times> int) list" where
  "sold_entries prev poll = filter (\<lambda>e. fst e \<notin> current_uuids poll) prev"

definition sales_data :: "int \<Rightarrow> auction_db \<Rightarrow> listing list \<Rightarrow> sale_row list" where
  "sales_data fetch_ts db poll =
     map (sale_tuple fetch_ts) (sold_entries (previous_auctions db) poll)"

text \<open>
  \<open>store_auctions\<close>; \<open>fetch_ts\<close> is the clock value \<open>int(time.time() * 1000)\<close>
  read at the start of the call.
\<close>

definition store_auctions :: "int \<Rightarrow> listing list \<Rightarrow> auction_db \<Rightarrow> auction_db" where
  "store_auctions fetch_ts poll db =
     (let sd = sales_data fetch_ts db poll;
          hd = history_data fetch_ts poll
      in \<lparr>auctions = executemany (insert_or_replace uuid) (auction_data fetch_ts poll) [],
          auction_history =
            (if hd \<noteq> []
             then executemany (insert_or_ignore (\<lambda>h. (h_uuid h, h_fetch_timestamp h))) hd
                    (auction_history db)
             else auction_history db),
          auction_sales =
            (if sd \<noteq> [] then executemany (insert_or_replace s_uuid) sd (auction_sales db)
             else auction_sales db)\<rparr>)"

text \<open>A run of polls, each with the clock value of its ingest.\<close>

definition ingest_all :: "(int \<times> listing list) list \<Rightarrow> auction_db \<Rightarrow> auction_db" where
  "ingest_all polls db = fold (\<lambda>(ts, poll). store_auctions ts poll) polls db"

subsection \<open>Name resolution helpers\<close>

text \<open>
  SQLite's \<open>LOWER\<close> folds the ASCII letters only; Python's \<open>in\<close>,
  \<open>startswith\<close> and \<open>replace\<close> are used on the single characters
  \<open>_\<close> and space.
\<close>

definition lower_char :: "char \<Rightarrow> char" where
  "lower_char c =
     (case map_of (zip ''ABCDEFGHIJKLMNOPQRSTUVWXYZ'' ''abcdefghijklmnopqrstuvwxyz'') c of
        Some l \<Rightarrow> l
      | None \<Rightarrow> c)"

definition sql_lower :: "string \<Rightarrow> string" where
  "sql_lower s = map lower_char s"

definition startswith :: "string \<Rightarrow> string \<Rightarrow> bool" where
  "startswith s p = (take (length p) s = p)"

definition replace_underscores :: "string \<Rightarrow> string" where
  "replace_underscores s = map (\<lambda>c. if c = CHR ''_'' then CHR '' '' else c) s"

text \<open>
  The guard both lookups put before each underscore-to-space retry:
  \<open>'_' in name and not name.startswith('ENCHANTMENT_')\<close>.
\<close>

definition spaces_allowed :: "string \<Rightarrow> bool" where
  "spaces_allowed s = (CHR ''_'' \<in> set s \<and> \<not> startswith s ''ENCHANTMENT_'')"

subsection \<open>get_lowest_bin\<close>

text \<open>
  \<open>ORDER BY starting_bid ASC LIMIT 1\<close>: a row of least starting bid; among
  equal bids SQLite's choice is open, the model takes the earliest row.
\<close>

fun min_bid_row :: "auction_row list \<Rightarrow> auction_row option" where
  "min_bid_row [] = None"
| "min_bid_row (r # rs) =
     (case min_bid_row rs of
        None \<Rightarrow> Some r
      | Some m \<Rightarrow> if starting_bid r \<le> starting_bid m then Some r else Some m)"

definition select_lowest_bin :: "(string \<Rightarrow> bool) \<Rightarrow> auction_db \<Rightarrow> auction_row option" where
  "select_lowest_bin matches db =
     min_bid_row (filter (\<lambda>r. matches (item_name r) \<and> bin r = 1 \<and> claimed r = 0) (auctions db))"

record bin_item =
  bi_uuid :: string
  bi_item_name :: string
  bi_price :: int
  bi_tier :: string
  bi_auctioneer :: string

definition item_dict :: "auction_row \<Rightarrow> bin_item" where
  "item_dict r =
     \<lparr>bi_uuid = uuid r, bi_item_name = item_name r, bi_price = starting_bid r,
      bi_tier = tier r, bi_auctioneer = auctioneer r\<rparr>"

text \<open>
  \<open>get_lowest_bin\<close> with \<open>include_player_name\<close> at its default \<open>False\<close> (the
  other value adds a name fetched over the network to the returned dict).
\<close>

definition get_lowest_bin :: "string \<Rightarrow> auction_db \<Rightarrow> bin_item option" where
  "get_lowest_bin name db =
     (let result = select_lowest_bin (\<lambda>n. n = name) db;
          result = (if result = None \<and> CHR ''_'' \<in> set name \<and> \<not> startswith name ''ENCHANTMENT_''
                    then select_lowest_bin (\<lambda>n. n = replace_underscores name) db
                    else result);
          result = (if result = None
                    then select_lowest_bin (\<lambda>n. sql_lower n = sql_lower name) db
                    else result);
          result = (if result = None \<and> CHR ''_'' \<in> set name \<and> \<not> startswith name ''ENCHANTMENT_''
                    then select_lowest_bin
                           (\<lambda>n. sql_lower n = sql_lower (replace_underscores name)) db
                    else result)
      in case result of None \<Rightarrow> None | Some r \<Rightarrow> Some (item_dict r))"

subsection \<open>get_sales_per_day\<close>

record sales_stats =
  ss_item_name :: string
  total_sales :: nat
  daily_sales :: rat
  avg_sale_price :: rat
  min_sale_price :: int
  max_sale_price :: int
  period_days :: int

text \<open>
  \<open>now_ms\<close> is the clock value \<open>int(time.time() * 1000)\<close>. Numbers that Python
  holds as floats are exact rationals here: the quotients are not rounded to
  binary64.
\<close>

definition sales_in_window :: "string \<Rightarrow> int \<Rightarrow> int \<Rightarrow> auction_db \<Rightarrow> sale_row list" where
  "sales_in_window name days now_ms db =
     filter (\<lambda>s. s_item_name s = name \<and> now_ms - days * 24 * 60 * 60 * 1000 \<le> sold_timestamp s)
            (auction_sales db)"

definition get_sales_per_day ::
  "string \<Rightarrow> int \<Rightarrow> int \<Rightarrow> auction_db \<Rightarrow> error + sales_stats option" where
  "get_sales_per_day name days now_ms db =
     (case map price (sales_in_window name days now_ms db) of
        [] \<Rightarrow> Inr None
      | p # ps \<Rightarrow>
          if days = 0 then Inl ZeroDivisionError
          else Inr (Some
            \<lparr>ss_item_name = name,
             total_sales = length (p # ps),
             daily_sales = of_nat (length (p # ps)) / of_int days,
             avg_sale_price = of_int (sum_list (p # ps)) / of_nat (length (p # ps)),
             min_sale_price = fold min ps p,
             max_sale_price = fold max ps p,
             period_days = days\<rparr>))"

section \<open>The bazaar tracker (utils/bazzar.py)\<close>

text \<open>
  The payload of the bazaar API. A key that may be missing is an option; a
  missing \<open>products\<close> key reads as the empty dict, a dict is the list of its
  items.
\<close>

record quick_status =
  sellPrice :: "rat option"
  sellVolume :: "int option"
  sellMovingWeek :: "int option"
  sellOrders :: "int option"
  buyPrice :: "rat option"
  buyVolume :: "int option"
  buyMovingWeek :: "int option"
  buyOrders :: "int option"

record bazaar_data =
  success :: "bool option"
  lastUpdated :: "int option"
  products :: "(string \<times> quick_status option) list"

text \<open>Rows of \<open>bazaar_current\<close> (primary key \<open>product_id\<close>) and of
  \<open>bazaar_products\<close> (primary key \<open>(product_id, timestamp)\<close>).\<close>

record bazaar_row =
  product_id :: string
  sell_price :: rat
  sell_volume :: int
  sell_moving_week :: int
  sell_orders :: int
  buy_price :: rat
  buy_volume :: int
  buy_moving_week :: int
  buy_orders :: int
  timestamp :: int

record bazaar_db =
  bazaar_current :: "bazaar_row list"
  bazaar_products :: "bazaar_row list"

definition get_or :: "'a option \<Rightarrow> 'a \<Rightarrow> 'a" where
  "get_or v d = (case v of Some x \<Rightarrow> x | None \<Rightarrow> d)"

definition empty_quick_status :: quick_status where
  "empty_quick_status =
     \<lparr>sellPrice = None, sellVolume = None, sellMovingWeek = None, sellOrders = None,
      buyPrice = None, buyVolume = None, buyMovingWeek = None, buyOrders = None\<rparr>"

definition bazaar_tuple :: "int \<Rightarrow> string \<times> quick_status option \<Rightarrow> bazaar_row" where
  "bazaar_tuple ts e =
     (case e of (pid, info) \<Rightarrow>
        let qs = get_or info empty_quick_status
        in \<lparr>product_id = pid,
            sell_price = get_or (sellPrice qs) 0,
            sell_volume = get_or (sellVolume qs) 0,
            sell_moving_week = get_or (sellMovingWeek qs) 0,
            sell_orders = get_or (sellOrders qs) 0,
            buy_price = get_or (buyPrice qs) 0,
            buy_volume = get_or (buyVolume qs) 0,
            buy_moving_week = get_or (buyMovingWeek qs) 0,
            buy_orders = get_or (buyOrders qs) 0,
            timestamp = ts\<rparr>)"

text \<open>
  \<open>store_bazaar_data\<close>. \<open>Inr\<close> is the committed state after a normal return.
  \<open>Inl\<close> is an exception raised by an \<open>INSERT\<close> before \<open>conn.commit()\<close>: the
  stored state is then still the one before the call.
\<close>

definition store_bazaar_data ::
  "int \<Rightarrow> bazaar_data option \<Rightarrow> bool \<Rightarrow> bazaar_db \<Rightarrow> error + bazaar_db" where
  "store_bazaar_data now_ms data store_history db =
     (case data of
        None \<Rightarrow> Inr db
      | Some d \<Rightarrow>
          if success d \<noteq> Some True then Inr db
          else
            let ts = get_or (lastUpdated d) now_ms;
                current_data = map (bazaar_tuple ts) (products d);
                history_data = (if store_history then current_data else [])
            in case insert_many product_id current_data [] of
                 Inl e \<Rightarrow> Inl e
               | Inr cur \<Rightarrow>
                   if store_history \<and> history_data \<noteq> []
                   then (case insert_many (\<lambda>r. (product_id r, timestamp r)) history_data
                                (bazaar_products db) of
                           Inl e \<Rightarrow> Inl e
                         | Inr hist \<Rightarrow> Inr \<lparr>bazaar_current = cur, bazaar_products = hist\<rparr>)
                   else Inr \<lparr>bazaar_current = cur, bazaar_products = bazaar_products db\<rparr>)"

subsection \<open>get_product_info\<close>

text \<open>\<open>fetchone\<close> on a query without \<open>ORDER BY\<close>: the earliest matching row.\<close>

definition select_product :: "(string \<Rightarrow> bool) \<Rightarrow> bazaar_db \<Rightarrow> bazaar_row option" where
  "select_product matches db = List.find (\<lambda>r. matches (product_id r)) (bazaar_current db)"

record product =
  p_product_id :: string
  p_sell_price :: rat
  p_buy_price :: rat
  p_sell_volume :: int
  p_buy_volume :: int
  p_sell_orders :: int
  p_buy_orders :: int
  p_sell_moving_week :: int
  p_buy_moving_week :: int

definition product_dict :: "bazaar_row \<Rightarrow> product" where
  "product_dict r =
     \<lparr>p_product_id = product_id r, p_sell_price = sell_price r, p_buy_price = buy_price r,
      p_sell_volume = sell_volume r, p_buy_volume = buy_volume r,
      p_sell_orders = sell_orders r, p_buy_orders = buy_orders r,
      p_sell_moving_week = sell_moving_week r, p_buy_moving_week = buy_moving_week r\<rparr>"

definition get_product_info :: "string \<Rightarrow> bazaar_db \<Rightarrow> product option" where
  "get_product_info pid db =
     (let result = select_product (\<lambda>n. n = pid) db;
          result = (if result = None \<and> CHR ''_'' \<in> set pid \<and> \<not> startswith pid ''ENCHANTMENT_''
                    then select_product (\<lambda>n. n = replace_underscores pid) db
                    else result);
          result = (if result = None
                    then select_product (\<lambda>n. sql_lower n = sql_lower pid) db
                    else result);
          result = (if result = None \<and> CHR ''_'' \<in> set pid \<and> \<not> startswith pid ''ENCHANTMENT_''
                    then select_product (\<lambda>n. sql_lower n = sql_lower (replace_underscores pid)) db
                    else result)
      in case result of None \<Rightarrow> None | Some r \<Rightarrow> Some (product_dict r))"

subsection \<open>The resolution order as the specification words it\<close>

text \<open>
  The four attempts in order, the two underscore-to-space ones only where the
  name has an underscore and does not start with \<open>ENCHANTMENT_\<close>; the first
  attempt that finds a row wins.
\<close>

definition resolution_attempts :: "string \<Rightarrow> (string \<Rightarrow> bool) list" where
  "resolution_attempts name =
     [\<lambda>k. k = name]
     @ (if spaces_allowed name then [\<lambda>k. k = replace_underscores name] else [])
     @ [\<lambda>k. sql_lower k = sql_lower name]
     @ (if spaces_allowed name
        then [\<lambda>k. sql_lower k = sql_lower (replace_underscores name)] else [])"

fun first_hit :: "('q \<Rightarrow> 'r option) \<Rightarrow> 'q list \<Rightarrow> 'r option" where
  "first_hit query [] = None"
| "first_hit query (a # as) =
     (case query a of Some r \<Rightarrow> Some r | None \<Rightarrow> first_hit query as)"

subsection \<open>The lowest fixed price as the specification words it\<close>

text \<open>
  The current listings an attempt matches: fixed-price, unclaimed, with an item
  name the attempt accepts.
\<close>

definition matching_listings :: "(string \<Rightarrow> bool) \<Rightarrow> auction_db \<Rightarrow> auction_row list" where
  "matching_listings matches db =
     filter (\<lambda>r. matches (item_name r) \<and> bin r = 1 \<and> claimed r = 0) (auctions db)"

text \<open>
  The listings of the first resolution attempt that matches any, and the least
  starting bid among them: the listing board's lowest fixed price for the name.
\<close>

definition hit_listings :: "string \<Rightarrow> auction_db \<Rightarrow> auction_row list" where
  "hit_listings name db =
     (case List.find (\<lambda>m. matching_listings m db \<noteq> []) (resolution_attempts name) of
        None \<Rightarrow> []
      | Some m \<Rightarrow> matching_listings m db)"

definition lowest_fixed_price :: "string \<Rightarrow> auction_db \<Rightarrow> int option" where
  "lowest_fixed_price name db =
     (case map starting_bid (hit_listings name db) of
        [] \<Rightarrow> None
      | p # ps \<Rightarrow> Some (fold min ps p))"

section \<open>The chest value calculator (api/chest_calculator.py)\<close>

text \<open>
  Python's \<open>round(x, 2)\<close> on the exact value of \<open>x\<close>: to the nearest multiple
  of 1/100, a tie going to the even one.
\<close>

definition py_round2 :: "rat \<Rightarrow> rat" where
  "py_round2 x =
     (let y = x * 100; f = \<lfloor>y\<rfloor>; d = y - of_int f
      in of_int (if d < 1 / 2 then f else if 1 / 2 < d then f + 1
                 else if even f then f else f + 1) / 100)"

record ah_entry =
  lowest_bin :: int
  ah_tier :: string
  ah_total :: int

record bz_entry =
  insta_sell_price :: rat
  insta_buy_price :: rat
  bz_total :: rat

text \<open>
  The dict \<open>get_item_value\<close> returns. A price is a Python \<open>int\<close> (auction
  house) or \<open>float\<close> (bazaar); both are rationals here, and \<open>None\<close> is the
  absent option.
\<close>

record item_value =
  iv_item_name :: string
  iv_quantity :: int
  found_in :: "string list"
  auction_house :: "ah_entry option"
  bazaar :: "bz_entry option"
  best_price :: "rat option"
  total_value :: rat
  market :: "string option"
  sales_per_day :: rat

definition initial_item_value :: "string \<Rightarrow> int \<Rightarrow> item_value" where
  "initial_item_value name quantity =
     \<lparr>iv_item_name = name, iv_quantity = quantity, found_in = [], auction_house = None,
      bazaar = None, best_price = None, total_value = 0, market = None,
      sales_per_day = - 1\<rparr>"

text \<open>
  The block under \<open># Check Auction House\<close>. \<open>get_sales_per_day\<close> is called
  with the name as given and its default \<open>days = 7\<close>, for which it does not
  raise.
\<close>

definition check_auction_house ::
  "int \<Rightarrow> string \<Rightarrow> int \<Rightarrow> auction_db \<Rightarrow> item_value \<Rightarrow> item_value" where
  "check_auction_house now_ms name quantity adb result =
     (case get_lowest_bin name adb of
        None \<Rightarrow> result
      | Some auction_item \<Rightarrow>
          let result = result
                \<lparr>found_in := found_in result @ [''auction_house''],
                 auction_house := Some \<lparr>lowest_bin = bi_price auction_item,
                                         ah_tier = bi_tier auction_item,
                                         ah_total = bi_price auction_item * quantity\<rparr>\<rparr>
          in case get_sales_per_day name 7 now_ms adb of
               Inr (Some sd) \<Rightarrow>
                 if daily_sales sd \<noteq> 0
                 then result\<lparr>sales_per_day := py_round2 (daily_sales sd)\<rparr>
                 else result
             | _ \<Rightarrow> result)"

text \<open>The block under \<open># Check Bazaar\<close>.\<close>

definition check_bazaar :: "string \<Rightarrow> int \<Rightarrow> bazaar_db \<Rightarrow> item_value \<Rightarrow> item_value" where
  "check_bazaar name quantity bdb result =
     (case get_product_info name bdb of
        None \<Rightarrow> result
      | Some bazaar_item \<Rightarrow>
          let result = result
                \<lparr>found_in := found_in result @ [''bazaar''],
                 bazaar := Some \<lparr>insta_sell_price = p_buy_price bazaar_item,
                                 insta_buy_price = p_sell_price bazaar_item,
                                 bz_total = p_buy_price bazaar_item * of_int quantity\<rparr>\<rparr>
          in if sales_per_day result = - 1 \<and> p_buy_moving_week bazaar_item \<noteq> 0
             then result\<lparr>sales_per_day :=
                          py_round2 (of_int (p_buy_moving_week bazaar_item) / 7)\<rparr>
             else result)"

text \<open>The block under \<open># Determine best price\<close>.\<close>

definition determine_best_price :: "int \<Rightarrow> item_value \<Rightarrow> item_value" where
  "determine_best_price quantity result =
     (case (auction_house result, bazaar result) of
        (Some ah, Some bz) \<Rightarrow>
          if insta_sell_price bz \<le> of_int (lowest_bin ah)
          then result\<lparr>best_price := Some (of_int (lowest_bin ah)),
                      total_value := of_int (lowest_bin ah * quantity),
                      market := Some ''auction_house''\<rparr>
          else result\<lparr>best_price := Some (insta_sell_price bz),
                      total_value := insta_sell_price bz * of_int quantity,
                      market := Some ''bazaar''\<rparr>
      | (Some ah, None) \<Rightarrow>
          result\<lparr>best_price := Some (of_int (lowest_bin ah)),
                 total_value := of_int (lowest_bin ah * quantity),
                 market := Some ''auction_house''\<rparr>
      | (None, Some bz) \<Rightarrow>
          result\<lparr>best_price := Some (insta_sell_price bz),
                 total_value := insta_sell_price bz * of_int quantity,
                 market := Some ''bazaar''\<rparr>
      | (None, None) \<Rightarrow> result)"

definition get_item_value ::
  "int \<Rightarrow> string \<Rightarrow> int \<Rightarrow> auction_db \<Rightarrow> bazaar_db \<Rightarrow> item_value" where
  "get_item_value now_ms name quantity adb bdb =
     determine_best_price quantity
       (check_bazaar name quantity bdb
          (check_auction_house now_ms name quantity adb
             (initial_item_value name quantity)))"

subsection \<open>calculate_chest_value\<close>

text \<open>One entry of the \<open>items\<close> list; either key may be missing.\<close>

record chest_item =
  ci_name :: "string option"
  ci_quantity :: "int option"

record summary =
  total_items :: nat
  items_found :: nat
  items_not_found :: nat
  sum_total_value :: rat
  chest_cost :: "rat option"
  profit :: "rat option"
  is_profitable :: "bool option"
  roi_percent :: "rat option"

text \<open>
  The returned dict without its \<open>last_updated\<close> block, which is read from the
  update logs and enters no other field. \<open>sum_total_value\<close> is the key
  \<open>total_value\<close> of the summary; \<open>is_profitable\<close> and \<open>roi_percent\<close> are
  \<open>None\<close> where the dict has no such key.
\<close>

record chest_result =
  items :: "item_value list"
  summary :: summary

definition initial_result :: "chest_item list \<Rightarrow> rat option \<Rightarrow> chest_result" where
  "initial_result its cost =
     \<lparr>items = [],
      summary = \<lparr>total_items = length its, items_found = 0, items_not_found = 0,
                 sum_total_value = 0, chest_cost = cost,
                 profit = (case cost of None \<Rightarrow> None | Some c \<Rightarrow> Some 0),
                 is_profitable = None, roi_percent = None\<rparr>\<rparr>"

text \<open>The body of the loop \<open>for item in items\<close>.\<close>

definition add_item ::
  "int \<Rightarrow> auction_db \<Rightarrow> bazaar_db \<Rightarrow> chest_item \<Rightarrow> chest_result \<Rightarrow> chest_result" where
  "add_item now_ms adb bdb item results =
     (let item_name = get_or (ci_name item) [];
          qty = get_or (ci_quantity item) 1
      in if item_name = [] then results
         else
           let item_value = get_item_value now_ms item_name qty adb bdb;
               sm = summary results
           in \<lparr>items = items results @ [item_value],
               summary =
                 (if best_price item_value \<noteq> None
                  then sm\<lparr>items_found := items_found sm + 1,
                          sum_total_value := sum_total_value sm + total_value item_value\<rparr>
                  else sm\<lparr>items_not_found := items_not_found sm + 1\<rparr>)\<rparr>)"

text \<open>The block under \<open># Calculate profit if chest cost provided\<close>.\<close>

definition add_profit :: "rat option \<Rightarrow> chest_result \<Rightarrow> chest_result" where
  "add_profit cost results =
     (case cost of
        None \<Rightarrow> results
      | Some c \<Rightarrow>
          let sm = summary results;
              pr = sum_total_value sm - c
          in results\<lparr>summary :=
               sm\<lparr>profit := Some pr,
                  is_profitable := Some (0 < pr),
                  roi_percent := Some (if 0 < c then pr / c * 100 else 0)\<rparr>\<rparr>)"

definition calculate_chest_value ::
  "int \<Rightarrow> chest_item list \<Rightarrow> rat option \<Rightarrow> auction_db \<Rightarrow> bazaar_db \<Rightarrow> chest_result" where
  "calculate_chest_value now_ms its cost adb bdb =
     add_profit cost (fold (add_item now_ms adb bdb) its (initial_result its cost))"

subsection \<open>The items a chest valuation values\<close>

text \<open>
  The entries of the \<open>items\<close> list with a non-empty name, each valued by
  \<open>get_item_value\<close> with its quantity (1 when missing), in order.
\<close>

definition item_values ::
  "int \<Rightarrow> chest_item list \<Rightarrow> auction_db \<Rightarrow> bazaar_db \<Rightarrow> item_value list" where
  "item_values now_ms its adb bdb =
     map (\<lambda>it. get_item_value now_ms (get_or (ci_name it) []) (get_or (ci_quantity it) 1) adb bdb)
         (filter (\<lambda>it. get_or (ci_name it) [] \<noteq> []) its)"

section \<open>Example data\<close>

text \<open>A fixed-price, unclaimed listing with the given id, item name and price.\<close>

definition bin_listing :: "string \<Rightarrow> string \<Rightarrow> int \<Rightarrow> listing" where
  "bin_listing u n p =
     \<lparr>l_uuid = u, l_auctioneer = ''seller'', l_profile_id = ''profile'', l_item_name = n,
      l_tier = ''RARE'', l_category = ''misc'', l_starting_bid = p, l_highest_bid_amount = 0,
      l_bin = True, l_start = 0, l_end = 0, l_last_updated = 0, l_claimed = False\<rparr>"

text \<open>
  A bazaar quote with the given instant-buy price, instant-sell price and buy
  moving week, and the bazaar store after one successful poll of the given
  products at time 5000.
\<close>

definition quote :: "rat \<Rightarrow> rat \<Rightarrow> int \<Rightarrow> quick_status option" where
  "quote sp bp bmw =
     Some \<lparr>sellPrice = Some sp, sellVolume = Some 0, sellMovingWeek = Some 0,
           sellOrders = Some 0, buyPrice = Some bp, buyVolume = Some 0,
           buyMovingWeek = Some bmw, buyOrders = Some 0\<rparr>"

definition empty_bazaar_db :: bazaar_db where
  "empty_bazaar_db = \<lparr>bazaar_current = [], bazaar_products = []\<rparr>"

definition bazaar_of :: "(string \<times> quick_status option) list \<Rightarrow> bazaar_db" where
  "bazaar_of ps =
     \<lparr>bazaar_current = map (bazaar_tuple 5000) ps,
      bazaar_products = map (bazaar_tuple 5000) ps\<rparr>"

text \<open>
  A listing board on which each of two items has two listings, the dearer one
  first, and a bazaar quoting both at an instant-sell price of 150; a board
  whose cheaper listing of one item is at that price.
\<close>

definition two_item_board :: auction_db where
  "two_item_board =
     store_auctions 1000
       [bin_listing ''a'' ''Hyperion'' 200, bin_listing ''b'' ''Hyperion'' 100,
        bin_listing ''c'' ''Terminator'' 250, bin_listing ''d'' ''Terminator'' 200]
       empty_auction_db"

definition two_item_bazaar :: bazaar_db where
  "two_item_bazaar =
     bazaar_of [(''Hyperion'', quote 160 150 700), (''Terminator'', quote 160 150 700)]"

definition tie_board :: auction_db where
  "tie_board =
     store_auctions 1000
       [bin_listing ''a'' ''Hyperion'' 200, bin_listing ''b'' ''Hyperion'' 150]
       empty_auction_db"

section \<open>Facts about the table operations\<close>

lemma filter_key_insert_or_replace:
  "filter (\<lambda>x. key x = k) (insert_or_replace key r t) =
     (if key r = k then [r] else filter (\<lambda>x. key x = k) t)"
  by (induction t) (auto simp: insert_or_replace_def)

lemma filter_key_fold_replace:
  "filter (\<lambda>x. key x = k) (fold (insert_or_replace key) rows t) =
     (case filter (\<lambda>x. key x = k) rows of
        [] \<Rightarrow> filter (\<lambda>x. key x = k) t
      | y # ys \<Rightarrow> [last (y # ys)])"
proof (induction rows arbitrary: t)
  case Nil
  show ?case by simp
next
  case (Cons r rows)
  show ?case
    by (simp add: Cons.IH filter_key_insert_or_replace split: list.splits)
qed

lemma distinct_insert_or_replace:
  "distinct (map key t) \<Longrightarrow> distinct (map key (insert_or_replace key r t))"
  by (auto simp: insert_or_replace_def distinct_map_filter)

lemma distinct_fold_replace:
  "distinct (map key t) \<Longrightarrow> distinct (map key (fold (insert_or_replace key) rows t))"
  by (induction rows arbitrary: t) (simp_all add: distinct_insert_or_replace)

lemma map_fst_dict_update:
  "map fst (map (\<lambda>(k', v'). if k' = k then (k', v) else (k', v')) d) = map fst d"
  by (induction d) auto

lemma keys_dict_set: "fst ` set (dict_set k v d) = insert k (fst ` set d)"
proof (cases "k \<in> fst ` set d")
  case True
  have "set (map fst (dict_set k v d)) = set (map fst d)"
    using True by (simp only: dict_set_def if_True map_fst_dict_update)
  with True show ?thesis by auto
next
  case False
  then show ?thesis by (simp add: dict_set_def)
qed

lemma keys_fold_dict_set:
  "fst ` set (fold (\<lambda>(k, v). dict_set k v) kvs d) = fst ` set kvs \<union> fst ` set d"
  by (induction kvs arbitrary: d) (auto simp: keys_dict_set split: prod.splits)

lemma keys_dict_of: "fst ` set (dict_of kvs) = fst ` set kvs"
  by (simp add: dict_of_def keys_fold_dict_set)

lemma fold_dict_set_distinct:
  "distinct (map fst (d @ kvs)) \<Longrightarrow> fold (\<lambda>(k, v). dict_set k v) kvs d = d @ kvs"
proof (induction kvs arbitrary: d)
  case Nil
  show ?case by simp
next
  case (Cons kv kvs)
  obtain k v where kv: "kv = (k, v)" by (cases kv)
  from Cons.prems have nk: "k \<notin> fst ` set d" by (auto simp: kv)
  from Cons.prems have "distinct (map fst ((d @ [(k, v)]) @ kvs))" by (auto simp: kv)
  from Cons.IH [OF this] nk show ?case by (simp add: kv dict_set_def)
qed

lemma dict_of_distinct: "distinct (map fst kvs) \<Longrightarrow> dict_of kvs = kvs"
  using fold_dict_set_distinct [of "[]" kvs] by (simp add: dict_of_def)

lemma fold_replace_map:
  assumes "\<And>x. key (f x) = key x"
  shows "fold (insert_or_replace key) (map f rows) (map f t) = map f (fold (insert_or_replace key) rows t)"
proof (induction rows arbitrary: t)
  case Nil
  show ?case by simp
next
  case (Cons r rows)
  have "insert_or_replace key (f r) (map f t) = map f (insert_or_replace key r t)"
    by (simp add: insert_or_replace_def filter_map o_def assms)
  then show ?case by (simp add: Cons.IH)
qed

lemma keys_fold_replace:
  "key ` set (fold (insert_or_replace key) rows t) = key ` set rows \<union> key ` set t"
proof (induction rows arbitrary: t)
  case Nil
  show ?case by simp
next
  case (Cons r rows)
  have "key ` set (insert_or_replace key r t) = insert (key r) (key ` set t)"
    by (auto simp: insert_or_replace_def)
  then show ?case by (simp add: Cons.IH)
qed

section \<open>Sale detection in store_auctions\<close>

lemma filter_key_distinct:
  "distinct (map f xs) \<Longrightarrow> x \<in> set xs \<Longrightarrow> filter (\<lambda>y. f y = f x) xs = [x]"
proof (induction xs)
  case Nil
  then show ?case by simp
next
  case (Cons a xs)
  show ?case
  proof (cases "a = x")
    case True
    have "f x \<notin> f ` set xs" using Cons.prems(1) True by simp
    then have "\<forall>y \<in> set xs. f y \<noteq> f x" by (metis imageI)
    then have "filter (\<lambda>y. f y = f x) xs = []" by (simp add: filter_empty_conv)
    with True show ?thesis by simp
  next
    case False
    with Cons.prems have "x \<in> set xs" by simp
    moreover from Cons.prems(1) have "distinct (map f xs)" by simp
    ultimately have IH: "filter (\<lambda>y. f y = f x) xs = [x]" by (rule Cons.IH [rotated])
    from Cons.prems(1) \<open>x \<in> set xs\<close> have "f a \<noteq> f x" by auto
    with IH show ?thesis by simp
  qed
qed

lemma previous_auctions_distinct:
  assumes "distinct (map uuid (auctions db))"
  shows "previous_auctions db =
           map (\<lambda>r. (uuid r, item_name r, tier r, starting_bid r, fetch_timestamp r))
               (filter (\<lambda>r. bin r = 1 \<and> claimed r = 0) (auctions db))"
proof -
  have "distinct (map uuid (filter (\<lambda>r. bin r = 1 \<and> claimed r = 0) (auctions db)))"
    using assms by (rule distinct_map_filter)
  then show ?thesis
    unfolding previous_auctions_def by (intro dict_of_distinct) (simp add: o_def)
qed

lemma keys_previous_auctions:
  "fst ` set (previous_auctions db) = uuid ` {r \<in> set (auctions db). bin r = 1 \<and> claimed r = 0}"
  unfolding previous_auctions_def keys_dict_of by (auto simp: image_iff)

lemma s_uuid_sale_tuple: "s_uuid (sale_tuple ts e) = fst e"
  by (cases e) (simp add: sale_tuple_def)

lemma sold_timestamp_sale_tuple: "sold_timestamp (sale_tuple ts e) = ts"
  by (cases e) (simp add: sale_tuple_def)

lemma sales_data_for_uuid:
  "filter (\<lambda>s. s_uuid s = u) (sales_data ts db poll) =
     (if u \<in> current_uuids poll then []
      else map (sale_tuple ts) (filter (\<lambda>e. fst e = u) (previous_auctions db)))"
proof -
  have "filter (\<lambda>s. s_uuid s = u) (sales_data ts db poll) =
        map (sale_tuple ts) (filter (\<lambda>e. fst e = u \<and> fst e \<notin> current_uuids poll) (previous_auctions db))"
    by (simp add: sales_data_def sold_entries_def filter_map o_def s_uuid_sale_tuple conj_commute)
  also have "\<dots> = (if u \<in> current_uuids poll then []
      else map (sale_tuple ts) (filter (\<lambda>e. fst e = u) (previous_auctions db)))"
    by (auto simp: filter_empty_conv intro!: arg_cong [where f = "map (sale_tuple ts)"] filter_cong)
  finally show ?thesis .
qed

lemma auction_sales_store:
  "auction_sales (store_auctions ts poll db) =
     fold (insert_or_replace s_uuid) (sales_data ts db poll) (auction_sales db)"
  by (simp add: store_auctions_def Let_def executemany_def)

lemma auctions_store:
  "auctions (store_auctions ts poll db) =
     fold (insert_or_replace uuid) (auction_data ts poll) []"
  by (simp add: store_auctions_def Let_def executemany_def)

text \<open>Every snapshot that \<open>store_auctions\<close> writes has one row per uuid.\<close>

lemma auctions_store_distinct:
  "distinct (map uuid (auctions (store_auctions ts poll db)))"
  unfolding auctions_store by (rule distinct_fold_replace) simp

lemma sales_for_uuid_store:
  "filter (\<lambda>s. s_uuid s = u) (auction_sales (store_auctions ts poll db)) =
     (case filter (\<lambda>s. s_uuid s = u) (sales_data ts db poll) of
        [] \<Rightarrow> filter (\<lambda>s. s_uuid s = u) (auction_sales db)
      | y # ys \<Rightarrow> [last (y # ys)])"
  unfolding auction_sales_store by (rule filter_key_fold_replace)

text \<open>
  Claim C1. In one ingest, every listing of the prior snapshot with \<open>bin = 1\<close>
  and \<open>claimed = 0\<close> whose id is absent from the new poll yields exactly one
  sale tuple, and afterwards exactly one row of \<open>auction_sales\<close> under its id:
  the price is the prior starting bid, first-seen the prior fetch timestamp,
  the sold timestamp the new poll's fetch timestamp. An id that is in the new
  poll yields no sale tuple, and the rows under it are left as they were. The
  prior snapshot has one row per id, as the primary key of the table enforces.
\<close>

theorem store_auctions_sale_detection:
  assumes "distinct (map uuid (auctions db))"
  shows "(\<forall>r \<in> set (auctions db).
            bin r = 1 \<and> claimed r = 0 \<and> uuid r \<notin> current_uuids poll \<longrightarrow>
              filter (\<lambda>s. s_uuid s = uuid r) (sales_data ts db poll) =
                [\<lparr>s_uuid = uuid r, s_item_name = item_name r, s_tier = tier r,
                  price = starting_bid r, first_seen = fetch_timestamp r,
                  last_seen = fetch_timestamp r, sold_timestamp = ts\<rparr>] \<and>
              filter (\<lambda>s. s_uuid s = uuid r) (auction_sales (store_auctions ts poll db)) =
                [\<lparr>s_uuid = uuid r, s_item_name = item_name r, s_tier = tier r,
                  price = starting_bid r, first_seen = fetch_timestamp r,
                  last_seen = fetch_timestamp r, sold_timestamp = ts\<rparr>])
       \<and> (\<forall>u \<in> current_uuids poll.
            filter (\<lambda>s. s_uuid s = u) (sales_data ts db poll) = [] \<and>
            filter (\<lambda>s. s_uuid s = u) (auction_sales (store_auctions ts poll db)) =
              filter (\<lambda>s. s_uuid s = u) (auction_sales db))"
proof (intro conjI ballI impI)
  fix r
  assume r: "r \<in> set (auctions db)"
    and sold: "bin r = 1 \<and> claimed r = 0 \<and> uuid r \<notin> current_uuids poll"
  let ?open = "filter (\<lambda>r. bin r = 1 \<and> claimed r = 0) (auctions db)"
  let ?row = "\<lparr>s_uuid = uuid r, s_item_name = item_name r, s_tier = tier r,
                  price = starting_bid r, first_seen = fetch_timestamp r,
                  last_seen = fetch_timestamp r, sold_timestamp = ts\<rparr>"
  have d: "distinct (map uuid ?open)" using assms by (rule distinct_map_filter)
  have "r \<in> set ?open" using r sold by simp
  with d have one: "filter (\<lambda>y. uuid y = uuid r) ?open = [r]" by (rule filter_key_distinct)
  have "filter (\<lambda>e. fst e = uuid r) (previous_auctions db) =
        map (\<lambda>r. (uuid r, item_name r, tier r, starting_bid r, fetch_timestamp r))
            (filter (\<lambda>y. uuid y = uuid r) ?open)"
    by (simp add: previous_auctions_distinct [OF assms] filter_map o_def)
  with one have "filter (\<lambda>e. fst e = uuid r) (previous_auctions db) =
        [(uuid r, item_name r, tier r, starting_bid r, fetch_timestamp r)]" by simp
  with sold show emitted: "filter (\<lambda>s. s_uuid s = uuid r) (sales_data ts db poll) = [?row]"
    by (simp add: sales_data_for_uuid sale_tuple_def)
  then show "filter (\<lambda>s. s_uuid s = uuid r) (auction_sales (store_auctions ts poll db)) = [?row]"
    by (simp add: sales_for_uuid_store)
next
  fix u assume u: "u \<in> current_uuids poll"
  then show none: "filter (\<lambda>s. s_uuid s = u) (sales_data ts db poll) = []"
    by (simp add: sales_data_for_uuid)
  then show "filter (\<lambda>s. s_uuid s = u) (auction_sales (store_auctions ts poll db)) =
              filter (\<lambda>s. s_uuid s = u) (auction_sales db)"
    by (simp add: sales_for_uuid_store)
qed

lemmas store_eval =
  store_auctions_def sales_data_def sold_entries_def previous_auctions_def dict_of_def
  dict_set_def current_uuids_def auction_data_def history_data_def auction_tuple_def
  history_tuple_def sale_tuple_def executemany_def insert_or_replace_def insert_or_ignore_def
  empty_auction_db_def bin_listing_def ingest_all_def Let_def

text \<open>
  Two listings are ingested at time 1000; the poll at time 2000 holds only the
  second, so the first is recorded as sold at 2000 for its price of 100.
\<close>

theorem store_auctions_sale_detection_witness:
  "distinct (map uuid (auctions (store_auctions 1000
       [bin_listing ''a'' ''Hyperion'' 100, bin_listing ''b'' ''Terminator'' 70] empty_auction_db)))
   \<and> auction_sales (store_auctions 2000 [bin_listing ''b'' ''Terminator'' 70]
        (store_auctions 1000
           [bin_listing ''a'' ''Hyperion'' 100, bin_listing ''b'' ''Terminator'' 70]
           empty_auction_db)) =
       [\<lparr>s_uuid = ''a'', s_item_name = ''Hyperion'', s_tier = ''RARE'', price = 100,
         first_seen = 1000, last_seen = 1000, sold_timestamp = 2000\<rparr>]"
proof -
  let ?db = "store_auctions 1000
       [bin_listing ''a'' ''Hyperion'' 100, bin_listing ''b'' ''Terminator'' 70] empty_auction_db"
  have d: "distinct (map uuid (auctions ?db))"
    by (simp add: store_eval)
  show ?thesis
    using d store_auctions_sale_detection [OF d, of "[bin_listing ''b'' ''Terminator'' 70]" 2000]
    by (simp add: store_eval)
qed

lemma distinct_sales_store:
  "distinct (map s_uuid (auction_sales db)) \<Longrightarrow>
   distinct (map s_uuid (auction_sales (store_auctions ts poll db)))"
  unfolding auction_sales_store by (rule distinct_fold_replace)

lemma distinct_sales_ingest_all:
  "distinct (map s_uuid (auction_sales db)) \<Longrightarrow>
   distinct (map s_uuid (auction_sales (ingest_all polls db)))"
proof (induction polls arbitrary: db)
  case Nil
  then show ?case by (simp add: ingest_all_def)
next
  case (Cons p polls)
  obtain ts poll where p: "p = (ts, poll)" by (cases p)
  have "distinct (map s_uuid (auction_sales (store_auctions ts poll db)))"
    using Cons.prems by (rule distinct_sales_store)
  from Cons.IH [OF this] show ?case by (simp add: ingest_all_def p)
qed

lemma detected_sale_row:
  assumes r: "r \<in> set (auctions db)" and b: "bin r = 1" "claimed r = 0"
    and gone: "uuid r \<notin> current_uuids poll"
  shows "\<exists>s. filter (\<lambda>x. s_uuid x = uuid r) (auction_sales (store_auctions ts poll db)) = [s]
             \<and> sold_timestamp s = ts"
proof -
  let ?hits = "filter (\<lambda>e. fst e = uuid r) (previous_auctions db)"
  have "uuid r \<in> fst ` set (previous_auctions db)"
    using r b unfolding keys_previous_auctions by blast
  then obtain e0 where "e0 \<in> set (previous_auctions db)" "fst e0 = uuid r"
    by (auto simp: image_iff)
  then have "?hits \<noteq> []" unfolding filter_empty_conv by blast
  then obtain e es where hits: "?hits = e # es" by (cases ?hits) auto
  have emitted: "filter (\<lambda>s. s_uuid s = uuid r) (sales_data ts db poll) =
        sale_tuple ts e # map (sale_tuple ts) es"
    using gone by (simp add: sales_data_for_uuid hits)
  have "filter (\<lambda>x. s_uuid x = uuid r) (auction_sales (store_auctions ts poll db)) =
        [last (sale_tuple ts e # map (sale_tuple ts) es)]"
    by (simp only: sales_for_uuid_store emitted list.case)
  moreover have "last (sale_tuple ts e # map (sale_tuple ts) es) \<in>
      set (map (sale_tuple ts) (e # es))"
    using last_in_set [of "sale_tuple ts e # map (sale_tuple ts) es"] by simp
  then have "sold_timestamp (last (sale_tuple ts e # map (sale_tuple ts) es)) = ts"
    by (auto simp: sold_timestamp_sale_tuple)
  ultimately show ?thesis by blast
qed

text \<open>
  Claim C2. After any run of ingests on a fresh database \<open>auction_sales\<close> has
  at most one row per listing id, and one ingest keeps that property. When an
  ingest detects an id as sold, whatever rows the table held under that id, it
  then holds exactly one, with the sold timestamp of this ingest.
\<close>

theorem sale_events_unique_per_listing:
  "distinct (map s_uuid (auction_sales (ingest_all polls empty_auction_db)))
   \<and> (distinct (map s_uuid (auction_sales db)) \<longrightarrow>
        distinct (map s_uuid (auction_sales (store_auctions ts poll db))))
   \<and> (\<forall>r \<in> set (auctions db).
        bin r = 1 \<and> claimed r = 0 \<and> uuid r \<notin> current_uuids poll \<longrightarrow>
          (\<exists>s. filter (\<lambda>x. s_uuid x = uuid r) (auction_sales (store_auctions ts poll db)) = [s]
               \<and> sold_timestamp s = ts))"
proof (intro conjI ballI impI)
  show "distinct (map s_uuid (auction_sales (ingest_all polls empty_auction_db)))"
    by (rule distinct_sales_ingest_all) (simp add: empty_auction_db_def)
next
  assume "distinct (map s_uuid (auction_sales db))"
  then show "distinct (map s_uuid (auction_sales (store_auctions ts poll db)))"
    by (rule distinct_sales_store)
next
  fix r
  assume "r \<in> set (auctions db)"
    and "bin r = 1 \<and> claimed r = 0 \<and> uuid r \<notin> current_uuids poll"
  then show "\<exists>s. filter (\<lambda>x. s_uuid x = uuid r) (auction_sales (store_auctions ts poll db)) = [s]
               \<and> sold_timestamp s = ts"
    by (intro detected_sale_row) simp_all
qed

text \<open>
  Listing \<open>a\<close> vanishes at 2000, is seen again at 3000 and vanishes again at
  4000: the one row under \<open>a\<close> is overwritten, its sold timestamp becoming
  4000.
\<close>

theorem sale_events_unique_per_listing_witness:
  "auction_sales (ingest_all
       [(1000, [bin_listing ''a'' ''Hyperion'' 100]), (2000, []),
        (3000, [bin_listing ''a'' ''Hyperion'' 90])] empty_auction_db) =
     [\<lparr>s_uuid = ''a'', s_item_name = ''Hyperion'', s_tier = ''RARE'', price = 100,
       first_seen = 1000, last_seen = 1000, sold_timestamp = 2000\<rparr>]
   \<and> auction_sales (store_auctions 4000 [] (ingest_all
       [(1000, [bin_listing ''a'' ''Hyperion'' 100]), (2000, []),
        (3000, [bin_listing ''a'' ''Hyperion'' 90])] empty_auction_db)) =
     [\<lparr>s_uuid = ''a'', s_item_name = ''Hyperion'', s_tier = ''RARE'', price = 90,
       first_seen = 3000, last_seen = 3000, sold_timestamp = 4000\<rparr>]
   \<and> distinct (map s_uuid (auction_sales (ingest_all
       [(1000, [bin_listing ''a'' ''Hyperion'' 100]), (2000, []),
        (3000, [bin_listing ''a'' ''Hyperion'' 90]), (4000, [])] empty_auction_db)))"
  using sale_events_unique_per_listing
    [of "[(1000, [bin_listing ''a'' ''Hyperion'' 100]), (2000, []),
          (3000, [bin_listing ''a'' ''Hyperion'' 90]), (4000, [])]"
        "ingest_all [(1000, [bin_listing ''a'' ''Hyperion'' 100]), (2000, []),
          (3000, [bin_listing ''a'' ''Hyperion'' 90])] empty_auction_db" 4000 "[]"]
  by (simp add: store_eval)

section \<open>Ingesting the same poll twice\<close>

lemma uuids_auctions_store:
  "uuid ` set (auctions (store_auctions ts poll db)) = current_uuids poll"
  by (simp add: auctions_store keys_fold_replace auction_data_def current_uuids_def
      image_image auction_tuple_def)

lemma sales_data_same_poll: "sales_data ts2 (store_auctions ts1 poll db) poll = []"
proof -
  have "fst ` set (previous_auctions (store_auctions ts1 poll db)) \<subseteq> current_uuids poll"
    unfolding keys_previous_auctions using uuids_auctions_store [of ts1 poll db] by blast
  then have "\<forall>e \<in> set (previous_auctions (store_auctions ts1 poll db)). fst e \<in> current_uuids poll"
    by blast
  then show ?thesis
    by (simp add: sales_data_def sold_entries_def filter_empty_conv)
qed

lemma auction_data_restamp:
  "auction_data ts2 poll = map (\<lambda>r. r\<lparr>fetch_timestamp := ts2\<rparr>) (auction_data ts1 poll)"
  by (simp add: auction_data_def auction_tuple_def)

lemma auctions_store_restamp:
  "auctions (store_auctions ts2 poll db') =
     map (\<lambda>r. r\<lparr>fetch_timestamp := ts2\<rparr>) (auctions (store_auctions ts1 poll db))"
proof -
  have "fold (insert_or_replace uuid) (map (\<lambda>r. r\<lparr>fetch_timestamp := ts2\<rparr>) (auction_data ts1 poll))
          (map (\<lambda>r. r\<lparr>fetch_timestamp := ts2\<rparr>) []) =
        map (\<lambda>r. r\<lparr>fetch_timestamp := ts2\<rparr>) (fold (insert_or_replace uuid) (auction_data ts1 poll) [])"
    by (rule fold_replace_map) simp
  then show ?thesis
    by (simp add: auctions_store auction_data_restamp [of ts2 poll ts1])
qed

text \<open>
  Claim C8, as amended. When the same listing list is ingested twice in a row,
  the second ingest emits no sale tuple and leaves \<open>auction_sales\<close> as it was;
  the current snapshot after it is the snapshot after the first with every
  \<open>fetch_timestamp\<close> set to the second ingest's clock value, so it is the
  same snapshot when both ingests read the same clock value.
\<close>

theorem store_auctions_same_poll_twice:
  "sales_data ts2 (store_auctions ts1 poll db) poll = []
   \<and> auction_sales (store_auctions ts2 poll (store_auctions ts1 poll db)) =
       auction_sales (store_auctions ts1 poll db)
   \<and> auctions (store_auctions ts2 poll (store_auctions ts1 poll db)) =
       map (\<lambda>r. r\<lparr>fetch_timestamp := ts2\<rparr>) (auctions (store_auctions ts1 poll db))
   \<and> auctions (store_auctions ts1 poll (store_auctions ts1 poll db)) =
       auctions (store_auctions ts1 poll db)"
proof (intro conjI)
  show "sales_data ts2 (store_auctions ts1 poll db) poll = []"
    by (rule sales_data_same_poll)
  then show "auction_sales (store_auctions ts2 poll (store_auctions ts1 poll db)) =
       auction_sales (store_auctions ts1 poll db)"
    by (simp add: auction_sales_store)
  show "auctions (store_auctions ts2 poll (store_auctions ts1 poll db)) =
       map (\<lambda>r. r\<lparr>fetch_timestamp := ts2\<rparr>) (auctions (store_auctions ts1 poll db))"
    by (rule auctions_store_restamp)
  show "auctions (store_auctions ts1 poll (store_auctions ts1 poll db)) =
       auctions (store_auctions ts1 poll db)"
    by (simp add: auctions_store)
qed

text \<open>The same one-listing poll at times 1000 and 2000.\<close>

theorem store_auctions_same_poll_twice_witness:
  "auction_sales (store_auctions 2000 [bin_listing ''a'' ''Hyperion'' 100]
      (store_auctions 1000 [bin_listing ''a'' ''Hyperion'' 100] empty_auction_db)) = []
   \<and> map fetch_timestamp (auctions (store_auctions 2000 [bin_listing ''a'' ''Hyperion'' 100]
      (store_auctions 1000 [bin_listing ''a'' ''Hyperion'' 100] empty_auction_db))) = [2000]
   \<and> map fetch_timestamp (auctions
      (store_auctions 1000 [bin_listing ''a'' ''Hyperion'' 100] empty_auction_db)) = [1000]"
  using store_auctions_same_poll_twice
    [of 2000 1000 "[bin_listing ''a'' ''Hyperion'' 100]" empty_auction_db]
  by (simp add: store_eval)

text \<open>
  The claim as stated fails: the snapshot after the second ingest carries the
  fetch timestamp 2000 where the first had 1000.
\<close>

theorem store_auctions_same_poll_twice_counterexample:
  "auctions (store_auctions 2000 [bin_listing ''a'' ''Hyperion'' 100]
      (store_auctions 1000 [bin_listing ''a'' ''Hyperion'' 100] empty_auction_db))
   \<noteq> auctions (store_auctions 1000 [bin_listing ''a'' ''Hyperion'' 100] empty_auction_db)"
  by (simp add: store_eval)

section \<open>Empty and malformed polls\<close>

lemma store_auctions_empty_poll:
  "store_auctions ts [] db =
     \<lparr>auctions = [], auction_history = auction_history db,
      auction_sales = fold (insert_or_replace s_uuid)
                        (map (sale_tuple ts) (previous_auctions db)) (auction_sales db)\<rparr>"
  by (simp add: store_auctions_def Let_def executemany_def sales_data_def sold_entries_def
      current_uuids_def auction_data_def history_data_def)

text \<open>
  Claim C3, as amended. \<open>store_bazaar_data\<close> returns with the stored state
  unchanged when it is given no data or data whose \<open>success\<close> is missing or
  false. \<open>store_auctions\<close> does not reject an empty listing list: the current
  snapshot becomes empty, the history table is unchanged, and every listing of
  the prior snapshot with \<open>bin = 1\<close> and \<open>claimed = 0\<close> ends with exactly one
  sale row stamped with this ingest; the state is unchanged only when the prior
  snapshot was already empty.
\<close>

theorem empty_or_malformed_poll:
  "store_bazaar_data now_ms None store_history bdb = Inr bdb
   \<and> (success d \<noteq> Some True \<longrightarrow> store_bazaar_data now_ms (Some d) store_history bdb = Inr bdb)
   \<and> auctions (store_auctions ts [] adb) = []
   \<and> auction_history (store_auctions ts [] adb) = auction_history adb
   \<and> (\<forall>r \<in> set (auctions adb). bin r = 1 \<and> claimed r = 0 \<longrightarrow>
        (\<exists>s. filter (\<lambda>x. s_uuid x = uuid r) (auction_sales (store_auctions ts [] adb)) = [s]
             \<and> sold_timestamp s = ts))
   \<and> (auctions adb = [] \<longrightarrow> store_auctions ts [] adb = adb)"
proof (intro conjI ballI impI)
  show "store_bazaar_data now_ms None store_history bdb = Inr bdb"
    by (simp add: store_bazaar_data_def)
  show "store_bazaar_data now_ms (Some d) store_history bdb = Inr bdb"
    if "success d \<noteq> Some True" using that by (simp add: store_bazaar_data_def)
  show "auctions (store_auctions ts [] adb) = []"
    by (simp add: store_auctions_empty_poll)
  show "auction_history (store_auctions ts [] adb) = auction_history adb"
    by (simp add: store_auctions_empty_poll)
  show "store_auctions ts [] adb = adb" if "auctions adb = []"
    using that by (simp add: store_auctions_empty_poll previous_auctions_def dict_of_def)
next
  fix r
  assume "r \<in> set (auctions adb)" and "bin r = 1 \<and> claimed r = 0"
  then show "\<exists>s. filter (\<lambda>x. s_uuid x = uuid r) (auction_sales (store_auctions ts [] adb)) = [s]
               \<and> sold_timestamp s = ts"
    by (intro detected_sale_row) (simp_all add: current_uuids_def)
qed

text \<open>
  A bazaar payload without \<open>success\<close> leaves a filled bazaar store as it is; an
  empty listing list empties a one-listing snapshot and records the listing as
  sold, and leaves the fresh database as it is.
\<close>

theorem empty_or_malformed_poll_witness:
  "store_bazaar_data 7000
      (Some \<lparr>success = None, lastUpdated = Some 6000, products = [(''WHEAT'', quote 3 2 70)]\<rparr>)
      True (bazaar_of [(''COAL'', quote 5 4 700)])
     = Inr (bazaar_of [(''COAL'', quote 5 4 700)])
   \<and> auctions (store_auctions 2000 []
        (store_auctions 1000 [bin_listing ''a'' ''Hyperion'' 100] empty_auction_db)) = []
   \<and> map sold_timestamp (auction_sales (store_auctions 2000 []
        (store_auctions 1000 [bin_listing ''a'' ''Hyperion'' 100] empty_auction_db))) = [2000]
   \<and> store_auctions 2000 [] empty_auction_db = empty_auction_db"
  using empty_or_malformed_poll
    [of 7000 True "bazaar_of [(''COAL'', quote 5 4 700)]"
        "\<lparr>success = None, lastUpdated = Some 6000, products = [(''WHEAT'', quote 3 2 70)]\<rparr>"
        2000 "store_auctions 1000 [bin_listing ''a'' ''Hyperion'' 100] empty_auction_db"]
    empty_or_malformed_poll
    [of 7000 True "bazaar_of [(''COAL'', quote 5 4 700)]"
        "\<lparr>success = None, lastUpdated = Some 6000, products = [(''WHEAT'', quote 3 2 70)]\<rparr>"
        2000 empty_auction_db]
  by (simp add: store_eval)

text \<open>
  The claim as stated fails for the listing store: an empty listing list
  changes both the current snapshot and the sale table of a one-listing store.
\<close>

theorem empty_or_malformed_poll_counterexample:
  "auctions (store_auctions 2000 []
      (store_auctions 1000 [bin_listing ''a'' ''Hyperion'' 100] empty_auction_db))
     \<noteq> auctions (store_auctions 1000 [bin_listing ''a'' ''Hyperion'' 100] empty_auction_db)
   \<and> auction_sales (store_auctions 2000 []
      (store_auctions 1000 [bin_listing ''a'' ''Hyperion'' 100] empty_auction_db))
     \<noteq> auction_sales (store_auctions 1000 [bin_listing ''a'' ''Hyperion'' 100] empty_auction_db)"
  by (simp add: store_eval)

section \<open>Name resolution\<close>

lemma first_hit_None: "first_hit query as = None \<longleftrightarrow> (\<forall>a \<in> set as. query a = None)"
  by (induction as) (auto split: option.splits)

lemma min_bid_row_in_set: "min_bid_row rs = Some r \<Longrightarrow> r \<in> set rs"
  by (induction rs arbitrary: r) (auto split: option.splits if_splits)

lemma select_lowest_bin_matches:
  "select_lowest_bin matches db = Some r \<Longrightarrow> matches (item_name r)"
  by (auto simp: select_lowest_bin_def dest: min_bid_row_in_set)

lemma select_product_matches:
  "select_product matches db = Some r \<Longrightarrow> matches (product_id r)"
  by (auto simp: select_product_def find_Some_iff)

lemma get_lowest_bin_first_hit:
  "get_lowest_bin name db =
     map_option item_dict (first_hit (\<lambda>m. select_lowest_bin m db) (resolution_attempts name))"
  by (auto simp: get_lowest_bin_def resolution_attempts_def spaces_allowed_def Let_def
      split: option.splits)

lemma get_product_info_first_hit:
  "get_product_info pid db =
     map_option product_dict (first_hit (\<lambda>m. select_product m db) (resolution_attempts pid))"
  by (auto simp: get_product_info_def resolution_attempts_def spaces_allowed_def Let_def
      split: option.splits)

lemma sentinel_attempts:
  "startswith name ''ENCHANTMENT_'' \<Longrightarrow>
   resolution_attempts name = [\<lambda>k. k = name, \<lambda>k. sql_lower k = sql_lower name]"
  by (simp add: resolution_attempts_def spaces_allowed_def)

lemma sentinel_lowest_bin:
  assumes "startswith name ''ENCHANTMENT_''" and "get_lowest_bin name db = Some r"
  shows "sql_lower (bi_item_name r) = sql_lower name"
  using assms
  by (auto simp: get_lowest_bin_first_hit sentinel_attempts item_dict_def
      split: option.splits dest: select_lowest_bin_matches)

lemma sentinel_product_info:
  assumes "startswith pid ''ENCHANTMENT_''" and "get_product_info pid db = Some p"
  shows "sql_lower (p_product_id p) = sql_lower pid"
  using assms
  by (auto simp: get_product_info_first_hit sentinel_attempts product_dict_def
      split: option.splits dest: select_product_matches)

text \<open>
  Claim C4. \<open>get_lowest_bin\<close> and \<open>get_product_info\<close> return the first hit
  of the attempts in the order exact match, underscore-to-space variant,
  case-insensitive match, case-insensitive underscore-to-space variant, the
  two variants being tried only where the name has an underscore and does not
  start with \<open>ENCHANTMENT_\<close>; the result is \<open>None\<close> exactly when every
  attempt fails. For a name that starts with \<open>ENCHANTMENT_\<close> the attempts are
  the two on the name itself, so a row that is found has the name itself as
  its key up to letter case.
\<close>

theorem name_resolution_order:
  "get_lowest_bin name adb =
     map_option item_dict (first_hit (\<lambda>m. select_lowest_bin m adb) (resolution_attempts name))
   \<and> get_product_info name bdb =
     map_option product_dict (first_hit (\<lambda>m. select_product m bdb) (resolution_attempts name))
   \<and> (get_lowest_bin name adb = None \<longleftrightarrow>
        (\<forall>m \<in> set (resolution_attempts name). select_lowest_bin m adb = None))
   \<and> (get_product_info name bdb = None \<longleftrightarrow>
        (\<forall>m \<in> set (resolution_attempts name). select_product m bdb = None))
   \<and> (startswith name ''ENCHANTMENT_'' \<longrightarrow>
        resolution_attempts name = [\<lambda>k. k = name, \<lambda>k. sql_lower k = sql_lower name]
        \<and> (\<forall>r. get_lowest_bin name adb = Some r \<longrightarrow> sql_lower (bi_item_name r) = sql_lower name)
        \<and> (\<forall>p. get_product_info name bdb = Some p \<longrightarrow> sql_lower (p_product_id p) = sql_lower name))"
proof (intro conjI impI allI)
  show "get_lowest_bin name adb =
     map_option item_dict (first_hit (\<lambda>m. select_lowest_bin m adb) (resolution_attempts name))"
    by (rule get_lowest_bin_first_hit)
  show "get_product_info name bdb =
     map_option product_dict (first_hit (\<lambda>m. select_product m bdb) (resolution_attempts name))"
    by (rule get_product_info_first_hit)
  show "get_lowest_bin name adb = None \<longleftrightarrow>
        (\<forall>m \<in> set (resolution_attempts name). select_lowest_bin m adb = None)"
    by (simp only: get_lowest_bin_first_hit map_option_is_None first_hit_None)
  show "get_product_info name bdb = None \<longleftrightarrow>
        (\<forall>m \<in> set (resolution_attempts name). select_product m bdb = None)"
    by (simp only: get_product_info_first_hit map_option_is_None first_hit_None)
next
  assume "startswith name ''ENCHANTMENT_''"
  then show "resolution_attempts name = [\<lambda>k. k = name, \<lambda>k. sql_lower k = sql_lower name]"
    by (rule sentinel_attempts)
next
  fix r assume "startswith name ''ENCHANTMENT_''" and "get_lowest_bin name adb = Some r"
  then show "sql_lower (bi_item_name r) = sql_lower name" by (rule sentinel_lowest_bin)
next
  fix p assume "startswith name ''ENCHANTMENT_''" and "get_product_info name bdb = Some p"
  then show "sql_lower (p_product_id p) = sql_lower name" by (rule sentinel_product_info)
qed

lemmas lookup_eval =
  get_lowest_bin_def get_product_info_def select_lowest_bin_def select_product_def
  item_dict_def product_dict_def sql_lower_def lower_char_def startswith_def
  replace_underscores_def spaces_allowed_def bazaar_of_def bazaar_tuple_def quote_def
  get_or_def empty_bazaar_db_def

text \<open>
  \<open>ENCHANTMENT_ULTIMATE_WISE_5\<close> is not found under a key written with spaces
  and is found under a key that differs in case only; \<open>ENCHANTED_DIAMOND\<close> is
  found under the key \<open>Enchanted Diamond\<close>.
\<close>

theorem name_resolution_order_witness:
  "startswith ''ENCHANTMENT_ULTIMATE_WISE_5'' ''ENCHANTMENT_''
   \<and> get_product_info ''ENCHANTMENT_ULTIMATE_WISE_5''
        (bazaar_of [(''ENCHANTMENT ULTIMATE WISE 5'', quote 5 4 700)]) = None
   \<and> map_option p_product_id (get_product_info ''ENCHANTMENT_ULTIMATE_WISE_5''
        (bazaar_of [(''enchantment_ultimate_wise_5'', quote 5 4 700)]))
       = Some ''enchantment_ultimate_wise_5''
   \<and> map_option bi_item_name (get_lowest_bin ''ENCHANTED_DIAMOND''
        (store_auctions 1000 [bin_listing ''a'' ''Enchanted Diamond'' 100] empty_auction_db))
       = Some ''Enchanted Diamond''
   \<and> get_lowest_bin ''ENCHANTMENT_ULTIMATE_WISE_5''
        (store_auctions 1000 [bin_listing ''a'' ''Enchanted Diamond'' 100] empty_auction_db) = None"
proof -
  have sentinel: "startswith ''ENCHANTMENT_ULTIMATE_WISE_5'' ''ENCHANTMENT_''"
    by (simp add: startswith_def)
  have spaced: "get_product_info ''ENCHANTMENT_ULTIMATE_WISE_5''
        (bazaar_of [(''ENCHANTMENT ULTIMATE WISE 5'', quote 5 4 700)]) = None"
    by (simp add: lookup_eval)
  have lowered: "map_option p_product_id (get_product_info ''ENCHANTMENT_ULTIMATE_WISE_5''
        (bazaar_of [(''enchantment_ultimate_wise_5'', quote 5 4 700)]))
       = Some ''enchantment_ultimate_wise_5''"
    by (simp add: lookup_eval)
  have diamond: "map_option bi_item_name (get_lowest_bin ''ENCHANTED_DIAMOND''
        (store_auctions 1000 [bin_listing ''a'' ''Enchanted Diamond'' 100] empty_auction_db))
       = Some ''Enchanted Diamond''"
    by (simp add: store_eval lookup_eval)
  have none: "\<forall>m \<in> set (resolution_attempts ''ENCHANTMENT_ULTIMATE_WISE_5'').
      select_lowest_bin m
        (store_auctions 1000 [bin_listing ''a'' ''Enchanted Diamond'' 100] empty_auction_db) = None"
    using name_resolution_order
      [of "''ENCHANTMENT_ULTIMATE_WISE_5''"
        "store_auctions 1000 [bin_listing ''a'' ''Enchanted Diamond'' 100] empty_auction_db"
        "bazaar_of [(''enchantment_ultimate_wise_5'', quote 5 4 700)]"] sentinel
    by (simp add: store_eval select_lowest_bin_def sql_lower_def lower_char_def)
  then have "get_lowest_bin ''ENCHANTMENT_ULTIMATE_WISE_5''
        (store_auctions 1000 [bin_listing ''a'' ''Enchanted Diamond'' 100] empty_auction_db) = None"
    using name_resolution_order
      [of "''ENCHANTMENT_ULTIMATE_WISE_5''"
        "store_auctions 1000 [bin_listing ''a'' ''Enchanted Diamond'' 100] empty_auction_db"
        "bazaar_of [(''enchantment_ultimate_wise_5'', quote 5 4 700)]"]
    by blast
  with sentinel spaced lowered diamond show ?thesis by blast
qed

text \<open>
  The conversion goes from underscores to spaces only: a query written with
  spaces does not find a key written with underscores.
\<close>

lemma spaced_query_of_underscored_key:
  "get_product_info ''enchanted diamond'' (bazaar_of [(''ENCHANTED_DIAMOND'', quote 5 4 700)]) = None"
  by (simp add: lookup_eval)

section \<open>The best price of one item\<close>

lemma auction_house_check:
  "auction_house (check_auction_house now_ms name quantity adb r) =
     (case get_lowest_bin name adb of
        None \<Rightarrow> auction_house r
      | Some a \<Rightarrow> Some \<lparr>lowest_bin = bi_price a, ah_tier = bi_tier a,
                          ah_total = bi_price a * quantity\<rparr>)"
  by (simp add: check_auction_house_def Let_def split: option.splits sum.splits)

lemma bazaar_check_auction_house:
  "bazaar (check_auction_house now_ms name quantity adb r) = bazaar r"
  by (simp add: check_auction_house_def Let_def split: option.splits sum.splits)

lemma rest_check_auction_house:
  "best_price (check_auction_house now_ms name quantity adb r) = best_price r"
  "total_value (check_auction_house now_ms name quantity adb r) = total_value r"
  "market (check_auction_house now_ms name quantity adb r) = market r"
  by (simp_all add: check_auction_house_def Let_def split: option.splits sum.splits)

lemma bazaar_check:
  "bazaar (check_bazaar name quantity bdb r) =
     (case get_product_info name bdb of
        None \<Rightarrow> bazaar r
      | Some b \<Rightarrow> Some \<lparr>insta_sell_price = p_buy_price b, insta_buy_price = p_sell_price b,
                          bz_total = p_buy_price b * of_int quantity\<rparr>)"
  by (simp add: check_bazaar_def Let_def split: option.splits)

lemma rest_check_bazaar:
  "auction_house (check_bazaar name quantity bdb r) = auction_house r"
  "best_price (check_bazaar name quantity bdb r) = best_price r"
  "total_value (check_bazaar name quantity bdb r) = total_value r"
  "market (check_bazaar name quantity bdb r) = market r"
  by (simp_all add: check_bazaar_def Let_def split: option.splits)

lemma sales_per_day_determine:
  "sales_per_day (determine_best_price quantity r) = sales_per_day r"
  by (simp add: determine_best_price_def split: option.splits)

text \<open>The two quotes \<open>get_item_value\<close> compares.\<close>

lemma best_price_both:
  assumes "get_lowest_bin name adb = Some a" and "get_product_info name bdb = Some b"
  shows "best_price (get_item_value now_ms name quantity adb bdb) =
           Some (if p_buy_price b \<le> of_int (bi_price a) then of_int (bi_price a) else p_buy_price b)"
    and "market (get_item_value now_ms name quantity adb bdb) =
           Some (if p_buy_price b \<le> of_int (bi_price a) then ''auction_house'' else ''bazaar'')"
    and "total_value (get_item_value now_ms name quantity adb bdb) =
           (if p_buy_price b \<le> of_int (bi_price a) then of_int (bi_price a) else p_buy_price b)
             * of_int quantity"
  using assms
  by (simp_all add: get_item_value_def determine_best_price_def bazaar_check rest_check_bazaar
      auction_house_check)

lemma best_price_auction_only:
  assumes "get_lowest_bin name adb = Some a" and "get_product_info name bdb = None"
  shows "best_price (get_item_value now_ms name quantity adb bdb) = Some (of_int (bi_price a))"
    and "market (get_item_value now_ms name quantity adb bdb) = Some ''auction_house''"
    and "total_value (get_item_value now_ms name quantity adb bdb) =
           of_int (bi_price a) * of_int quantity"
  using assms
  by (simp_all add: get_item_value_def determine_best_price_def bazaar_check rest_check_bazaar
      auction_house_check bazaar_check_auction_house initial_item_value_def)

lemma best_price_bazaar_only:
  assumes "get_lowest_bin name adb = None" and "get_product_info name bdb = Some b"
  shows "best_price (get_item_value now_ms name quantity adb bdb) = Some (p_buy_price b)"
    and "market (get_item_value now_ms name quantity adb bdb) = Some ''bazaar''"
    and "total_value (get_item_value now_ms name quantity adb bdb) =
           p_buy_price b * of_int quantity"
  using assms
  by (simp_all add: get_item_value_def determine_best_price_def bazaar_check rest_check_bazaar
      auction_house_check initial_item_value_def)

lemma best_price_neither:
  assumes "get_lowest_bin name adb = None" and "get_product_info name bdb = None"
  shows "best_price (get_item_value now_ms name quantity adb bdb) = None"
    and "market (get_item_value now_ms name quantity adb bdb) = None"
    and "total_value (get_item_value now_ms name quantity adb bdb) = 0"
  using assms
  by (simp_all add: get_item_value_def determine_best_price_def bazaar_check rest_check_bazaar
      auction_house_check bazaar_check_auction_house rest_check_auction_house
      initial_item_value_def)

lemma best_price_None_iff:
  "best_price (get_item_value now_ms name quantity adb bdb) = None \<longleftrightarrow>
     get_lowest_bin name adb = None \<and> get_product_info name bdb = None"
  by (cases "get_lowest_bin name adb"; cases "get_product_info name bdb")
     (simp_all add: best_price_both best_price_auction_only best_price_bazaar_only
        best_price_neither)

text \<open>
  The row \<open>get_lowest_bin\<close> returns has the least starting bid among the
  listings of the attempt that hits.
\<close>

lemma min_bid_row_None: "min_bid_row rs = None \<longleftrightarrow> rs = []"
  by (cases rs) (auto split: option.splits)

lemma min_bid_row_least_all:
  "min_bid_row rs = Some m \<Longrightarrow> \<forall>r \<in> set rs. starting_bid m \<le> starting_bid r"
proof (induction rs arbitrary: m)
  case Nil
  then show ?case by simp
next
  case (Cons x xs)
  show ?case
  proof (cases "min_bid_row xs")
    case None
    then have "xs = []" by (simp add: min_bid_row_None)
    with Cons.prems show ?thesis by simp
  next
    case (Some m')
    then have tail: "\<forall>y \<in> set xs. starting_bid m' \<le> starting_bid y"
      by (rule Cons.IH)
    show ?thesis
    proof (cases "starting_bid x \<le> starting_bid m'")
      case True
      with Some Cons.prems have "m = x" by simp
      with True tail show ?thesis by (auto intro: order_trans)
    next
      case False
      with Some Cons.prems have "m = m'" by simp
      with False tail show ?thesis by auto
    qed
  qed
qed

lemma min_bid_row_least:
  "min_bid_row rs = Some m \<Longrightarrow> r \<in> set rs \<Longrightarrow> starting_bid m \<le> starting_bid r"
  using min_bid_row_least_all by blast

lemma min_bid_row_price:
  "map_option starting_bid (min_bid_row rs) =
     (case map starting_bid rs of [] \<Rightarrow> None | p # ps \<Rightarrow> Some (fold min ps p))"
proof (cases rs)
  case Nil
  then show ?thesis by simp
next
  case (Cons x xs)
  then have "min_bid_row rs \<noteq> None" unfolding min_bid_row_None by simp
  then obtain m where m: "min_bid_row rs = Some m" by auto
  have "m \<in> set rs" using m by (rule min_bid_row_in_set)
  then have "starting_bid m \<in> starting_bid ` set rs" by simp
  moreover have "\<forall>p \<in> starting_bid ` set rs. starting_bid m \<le> p"
    using m by (auto dest: min_bid_row_least)
  ultimately have "Min (starting_bid ` set rs) = starting_bid m"
    by (intro Min_eqI) auto
  moreover have "fold min (map starting_bid xs) (starting_bid x) = Min (starting_bid ` set rs)"
    using Min.set_eq_fold [of "starting_bid x" "map starting_bid xs"] by (simp add: Cons)
  ultimately have price: "fold min (map starting_bid xs) (starting_bid x) = starting_bid m"
    by simp
  have "map_option starting_bid (min_bid_row rs) = Some (starting_bid m)"
    by (simp only: m option.map)
  moreover have "(case map starting_bid rs of [] \<Rightarrow> None | p # ps \<Rightarrow> Some (fold min ps p)) =
      Some (fold min (map starting_bid xs) (starting_bid x))"
    by (simp add: Cons)
  ultimately show ?thesis by (simp only: price)
qed

lemma select_lowest_bin_matching:
  "select_lowest_bin m db = min_bid_row (matching_listings m db)"
  by (simp add: select_lowest_bin_def matching_listings_def)

lemma first_hit_lowest:
  "first_hit (\<lambda>m. min_bid_row (matching_listings m db)) ms =
     (case List.find (\<lambda>m. matching_listings m db \<noteq> []) ms of
        None \<Rightarrow> None
      | Some m \<Rightarrow> min_bid_row (matching_listings m db))"
proof (induction ms)
  case Nil
  show ?case by simp
next
  case (Cons m ms)
  show ?case
  proof (cases "matching_listings m db = []")
    case True
    then show ?thesis by (simp add: Cons.IH)
  next
    case False
    then have "min_bid_row (matching_listings m db) \<noteq> None"
      unfolding min_bid_row_None .
    with False show ?thesis by auto
  qed
qed

lemma get_lowest_bin_hit_listings:
  "get_lowest_bin name db = map_option item_dict (min_bid_row (hit_listings name db))"
proof -
  have "get_lowest_bin name db =
      map_option item_dict
        (first_hit (\<lambda>m. min_bid_row (matching_listings m db)) (resolution_attempts name))"
    by (simp add: get_lowest_bin_first_hit select_lowest_bin_matching)
  then show ?thesis
    by (simp add: first_hit_lowest hit_listings_def split: option.splits)
qed

lemma price_get_lowest_bin:
  "map_option bi_price (get_lowest_bin name db) = lowest_fixed_price name db"
proof -
  have "map_option bi_price (get_lowest_bin name db) =
        map_option starting_bid (min_bid_row (hit_listings name db))"
    by (simp add: get_lowest_bin_hit_listings option.map_comp o_def item_dict_def)
  then show ?thesis by (simp add: min_bid_row_price lowest_fixed_price_def)
qed

lemma lowest_fixed_price_least:
  assumes "lowest_fixed_price name db = Some p"
  shows "(\<exists>r \<in> set (hit_listings name db). starting_bid r = p)
       \<and> (\<forall>r \<in> set (hit_listings name db). p \<le> starting_bid r)"
proof -
  from assms have "map_option starting_bid (min_bid_row (hit_listings name db)) = Some p"
    by (simp add: min_bid_row_price lowest_fixed_price_def)
  then obtain m where m: "min_bid_row (hit_listings name db) = Some m" and p: "starting_bid m = p"
    by auto
  from m have "m \<in> set (hit_listings name db)" by (rule min_bid_row_in_set)
  with p m show ?thesis by (auto dest: min_bid_row_least)
qed

lemma lowest_fixed_price_None:
  "lowest_fixed_price name db = None \<longleftrightarrow> hit_listings name db = []"
  by (auto simp: lowest_fixed_price_def split: list.splits)

lemma get_lowest_bin_price:
  "lowest_fixed_price name db = Some p \<Longrightarrow> \<exists>a. get_lowest_bin name db = Some a \<and> bi_price a = p"
  "lowest_fixed_price name db = None \<Longrightarrow> get_lowest_bin name db = None"
  using price_get_lowest_bin [of name db] by auto

section \<open>Chest aggregation\<close>

lemma add_item_skip:
  "get_or (ci_name it) [] = [] \<Longrightarrow> add_item now_ms adb bdb it res = res"
  by (simp add: add_item_def Let_def)

lemma add_item_fields:
  assumes "get_or (ci_name it) [] \<noteq> []"
  shows "items (add_item now_ms adb bdb it res) =
           items res @ [get_item_value now_ms (get_or (ci_name it) []) (get_or (ci_quantity it) 1) adb bdb]"
    and "items_found (summary (add_item now_ms adb bdb it res)) =
           items_found (summary res) + (if best_price (get_item_value now_ms (get_or (ci_name it) []) (get_or (ci_quantity it) 1) adb bdb) \<noteq> None then 1 else 0)"
    and "items_not_found (summary (add_item now_ms adb bdb it res)) =
           items_not_found (summary res) + (if best_price (get_item_value now_ms (get_or (ci_name it) []) (get_or (ci_quantity it) 1) adb bdb) = None then 1 else 0)"
    and "sum_total_value (summary (add_item now_ms adb bdb it res)) =
           sum_total_value (summary res)
             + (if best_price (get_item_value now_ms (get_or (ci_name it) []) (get_or (ci_quantity it) 1) adb bdb) \<noteq> None
                then total_value (get_item_value now_ms (get_or (ci_name it) []) (get_or (ci_quantity it) 1) adb bdb) else 0)"
    and "chest_cost (summary (add_item now_ms adb bdb it res)) = chest_cost (summary res)"
    and "total_items (summary (add_item now_ms adb bdb it res)) = total_items (summary res)"
    and "profit (summary (add_item now_ms adb bdb it res)) = profit (summary res)"
    and "is_profitable (summary (add_item now_ms adb bdb it res)) = is_profitable (summary res)"
    and "roi_percent (summary (add_item now_ms adb bdb it res)) = roi_percent (summary res)"
  using assms by (simp_all add: add_item_def Let_def)

lemma fold_add_item:
  "items (fold (add_item now_ms adb bdb) its res) = items res @ item_values now_ms its adb bdb
   \<and> items_found (summary (fold (add_item now_ms adb bdb) its res)) =
       items_found (summary res)
         + length (filter (\<lambda>v. best_price v \<noteq> None) (item_values now_ms its adb bdb))
   \<and> items_not_found (summary (fold (add_item now_ms adb bdb) its res)) =
       items_not_found (summary res)
         + length (filter (\<lambda>v. best_price v = None) (item_values now_ms its adb bdb))
   \<and> sum_total_value (summary (fold (add_item now_ms adb bdb) its res)) =
       sum_total_value (summary res)
         + sum_list (map total_value
             (filter (\<lambda>v. best_price v \<noteq> None) (item_values now_ms its adb bdb)))
   \<and> chest_cost (summary (fold (add_item now_ms adb bdb) its res)) = chest_cost (summary res)
   \<and> total_items (summary (fold (add_item now_ms adb bdb) its res)) = total_items (summary res)
   \<and> profit (summary (fold (add_item now_ms adb bdb) its res)) = profit (summary res)
   \<and> is_profitable (summary (fold (add_item now_ms adb bdb) its res)) =
       is_profitable (summary res)
   \<and> roi_percent (summary (fold (add_item now_ms adb bdb) its res)) = roi_percent (summary res)"
proof (induction its arbitrary: res)
  case Nil
  show ?case by (simp add: item_values_def)
next
  case (Cons it its)
  show ?case
  proof (cases "get_or (ci_name it) [] = []")
    case True
    then have "item_values now_ms (it # its) adb bdb = item_values now_ms its adb bdb"
      by (simp add: item_values_def)
    with True Cons.IH [of res] show ?thesis by (simp add: add_item_skip)
  next
    case False
    then have iv: "item_values now_ms (it # its) adb bdb =
        get_item_value now_ms (get_or (ci_name it) []) (get_or (ci_quantity it) 1) adb bdb
          # item_values now_ms its adb bdb"
      by (simp add: item_values_def)
    show ?thesis
      using Cons.IH [of "add_item now_ms adb bdb it res"]
      by (simp add: iv add_item_fields [OF False])
  qed
qed

lemma summary_add_profit:
  "add_profit None res = res"
  "summary (add_profit (Some c) res) =
     (summary res)\<lparr>profit := Some (sum_total_value (summary res) - c),
                   is_profitable := Some (0 < sum_total_value (summary res) - c),
                   roi_percent := Some (if 0 < c then (sum_total_value (summary res) - c) / c * 100
                                        else 0)\<rparr>"
  "items (add_profit cost res) = items res"
  by (simp_all add: add_profit_def Let_def split: option.splits)

lemma calculate_items:
  "items (calculate_chest_value now_ms its cost adb bdb) = item_values now_ms its adb bdb"
  using fold_add_item [of now_ms adb bdb its "initial_result its cost"]
  by (simp add: calculate_chest_value_def summary_add_profit initial_result_def)

lemma calculate_counts:
  "items_found (summary (calculate_chest_value now_ms its cost adb bdb)) =
     length (filter (\<lambda>v. best_price v \<noteq> None) (item_values now_ms its adb bdb))"
  "items_not_found (summary (calculate_chest_value now_ms its cost adb bdb)) =
     length (filter (\<lambda>v. best_price v = None) (item_values now_ms its adb bdb))"
  "sum_total_value (summary (calculate_chest_value now_ms its cost adb bdb)) =
     sum_list (map total_value
       (filter (\<lambda>v. best_price v \<noteq> None) (item_values now_ms its adb bdb)))"
  using fold_add_item [of now_ms adb bdb its "initial_result its cost"]
  by (cases cost; simp add: calculate_chest_value_def summary_add_profit initial_result_def)+

lemma calculate_without_cost:
  "profit (summary (calculate_chest_value now_ms its None adb bdb)) = None"
  "is_profitable (summary (calculate_chest_value now_ms its None adb bdb)) = None"
  "roi_percent (summary (calculate_chest_value now_ms its None adb bdb)) = None"
  using fold_add_item [of now_ms adb bdb its "initial_result its None"]
  by (simp_all add: calculate_chest_value_def summary_add_profit initial_result_def)

lemma calculate_with_cost:
  "profit (summary (calculate_chest_value now_ms its (Some c) adb bdb)) =
     Some (sum_total_value (summary (calculate_chest_value now_ms its (Some c) adb bdb)) - c)"
  "is_profitable (summary (calculate_chest_value now_ms its (Some c) adb bdb)) =
     Some (0 < sum_total_value (summary (calculate_chest_value now_ms its (Some c) adb bdb)) - c)"
  "roi_percent (summary (calculate_chest_value now_ms its (Some c) adb bdb)) =
     Some (if 0 < c
           then (sum_total_value (summary (calculate_chest_value now_ms its (Some c) adb bdb)) - c)
                  / c * 100
           else 0)"
  by (simp_all add: calculate_chest_value_def summary_add_profit)

lemmas value_eval =
  get_item_value_def check_auction_house_def check_bazaar_def determine_best_price_def
  initial_item_value_def get_sales_per_day_def sales_in_window_def py_round2_def
  calculate_chest_value_def add_item_def add_profit_def initial_result_def item_values_def

text \<open>
  Claim C7, as amended. The summary's total is the sum of \<open>total_value\<close> over
  the valued items that were found. With a chest cost \<open>c\<close> the profit is the
  total minus \<open>c\<close>, the item is profitable when the profit is positive, and
  the ROI is profit / \<open>c\<close> * 100 when \<open>c\<close> is positive and 0 otherwise, so 0
  at cost 0. Without a chest cost the profit is \<open>None\<close> and neither
  \<open>is_profitable\<close> nor \<open>roi_percent\<close> is set.
\<close>

theorem chest_value_summary:
  "sum_total_value (summary (calculate_chest_value now_ms its cost adb bdb)) =
     sum_list (map total_value
       (filter (\<lambda>v. best_price v \<noteq> None) (item_values now_ms its adb bdb)))
   \<and> profit (summary (calculate_chest_value now_ms its (Some c) adb bdb)) =
       Some (sum_total_value (summary (calculate_chest_value now_ms its (Some c) adb bdb)) - c)
   \<and> is_profitable (summary (calculate_chest_value now_ms its (Some c) adb bdb)) =
       Some (0 < sum_total_value (summary (calculate_chest_value now_ms its (Some c) adb bdb)) - c)
   \<and> roi_percent (summary (calculate_chest_value now_ms its (Some c) adb bdb)) =
       Some (if 0 < c
             then (sum_total_value (summary (calculate_chest_value now_ms its (Some c) adb bdb)) - c)
                    / c * 100
             else 0)
   \<and> roi_percent (summary (calculate_chest_value now_ms its (Some 0) adb bdb)) = Some 0
   \<and> profit (summary (calculate_chest_value now_ms its None adb bdb)) = None
   \<and> is_profitable (summary (calculate_chest_value now_ms its None adb bdb)) = None
   \<and> roi_percent (summary (calculate_chest_value now_ms its None adb bdb)) = None"
  by (simp add: calculate_counts calculate_with_cost calculate_without_cost)

text \<open>
  One item worth 100 and two worth 50 each against a cost of 150: total 200,
  profit 50, profitable, ROI 100/3, which is 33.3 to one decimal.
\<close>

theorem chest_value_summary_witness:
  "sum_total_value (summary (calculate_chest_value 3000
        [\<lparr>ci_name = Some ''Hyperion'', ci_quantity = Some 1\<rparr>,
         \<lparr>ci_name = Some ''Terminator'', ci_quantity = Some 2\<rparr>] (Some 150)
        (store_auctions 1000
           [bin_listing ''a'' ''Hyperion'' 100, bin_listing ''b'' ''Terminator'' 50]
           empty_auction_db) empty_bazaar_db)) = 200
   \<and> profit (summary (calculate_chest_value 3000
        [\<lparr>ci_name = Some ''Hyperion'', ci_quantity = Some 1\<rparr>,
         \<lparr>ci_name = Some ''Terminator'', ci_quantity = Some 2\<rparr>] (Some 150)
        (store_auctions 1000
           [bin_listing ''a'' ''Hyperion'' 100, bin_listing ''b'' ''Terminator'' 50]
           empty_auction_db) empty_bazaar_db)) = Some 50
   \<and> is_profitable (summary (calculate_chest_value 3000
        [\<lparr>ci_name = Some ''Hyperion'', ci_quantity = Some 1\<rparr>,
         \<lparr>ci_name = Some ''Terminator'', ci_quantity = Some 2\<rparr>] (Some 150)
        (store_auctions 1000
           [bin_listing ''a'' ''Hyperion'' 100, bin_listing ''b'' ''Terminator'' 50]
           empty_auction_db) empty_bazaar_db)) = Some True
   \<and> roi_percent (summary (calculate_chest_value 3000
        [\<lparr>ci_name = Some ''Hyperion'', ci_quantity = Some 1\<rparr>,
         \<lparr>ci_name = Some ''Terminator'', ci_quantity = Some 2\<rparr>] (Some 150)
        (store_auctions 1000
           [bin_listing ''a'' ''Hyperion'' 100, bin_listing ''b'' ''Terminator'' 50]
           empty_auction_db) empty_bazaar_db)) = Some (100 / 3)
   \<and> (333 / 10 :: rat) \<le> 100 / 3 \<and> (100 / 3 :: rat) < 334 / 10
   \<and> roi_percent (summary (calculate_chest_value 3000
        [\<lparr>ci_name = Some ''Hyperion'', ci_quantity = Some 1\<rparr>,
         \<lparr>ci_name = Some ''Terminator'', ci_quantity = Some 2\<rparr>] (Some 0)
        (store_auctions 1000
           [bin_listing ''a'' ''Hyperion'' 100, bin_listing ''b'' ''Terminator'' 50]
           empty_auction_db) empty_bazaar_db)) = Some 0
   \<and> profit (summary (calculate_chest_value 3000
        [\<lparr>ci_name = Some ''Hyperion'', ci_quantity = Some 1\<rparr>,
         \<lparr>ci_name = Some ''Terminator'', ci_quantity = Some 2\<rparr>] None
        (store_auctions 1000
           [bin_listing ''a'' ''Hyperion'' 100, bin_listing ''b'' ''Terminator'' 50]
           empty_auction_db) empty_bazaar_db)) = None"
proof -
  have total: "sum_list (map total_value (filter (\<lambda>v. best_price v \<noteq> None)
      (item_values 3000
        [\<lparr>ci_name = Some ''Hyperion'', ci_quantity = Some 1\<rparr>,
         \<lparr>ci_name = Some ''Terminator'', ci_quantity = Some 2\<rparr>]
        (store_auctions 1000
           [bin_listing ''a'' ''Hyperion'' 100, bin_listing ''b'' ''Terminator'' 50]
           empty_auction_db) empty_bazaar_db))) = 200"
    by (simp add: store_eval lookup_eval value_eval)
  show ?thesis
    using total
      chest_value_summary [of 3000
        "[\<lparr>ci_name = Some ''Hyperion'', ci_quantity = Some 1\<rparr>,
         \<lparr>ci_name = Some ''Terminator'', ci_quantity = Some 2\<rparr>]" "Some 150"
        "store_auctions 1000
           [bin_listing ''a'' ''Hyperion'' 100, bin_listing ''b'' ''Terminator'' 50]
           empty_auction_db" empty_bazaar_db 150]
      chest_value_summary [of 3000
        "[\<lparr>ci_name = Some ''Hyperion'', ci_quantity = Some 1\<rparr>,
         \<lparr>ci_name = Some ''Terminator'', ci_quantity = Some 2\<rparr>]" "Some 0"
        "store_auctions 1000
           [bin_listing ''a'' ''Hyperion'' 100, bin_listing ''b'' ''Terminator'' 50]
           empty_auction_db" empty_bazaar_db 0]
    by simp
qed

text \<open>
  The claim as stated fails at a negative cost: with no items and a cost of
  -100 the profit is 100 and the reported ROI is 0, not profit / cost * 100.
\<close>

theorem chest_value_summary_counterexample:
  "profit (summary (calculate_chest_value 3000 [] (Some (- 100)) empty_auction_db
      empty_bazaar_db)) = Some 100
   \<and> roi_percent (summary (calculate_chest_value 3000 [] (Some (- 100)) empty_auction_db
      empty_bazaar_db)) = Some 0
   \<and> (100 / (- 100) * 100 :: rat) \<noteq> 0"
  by (simp add: value_eval)

section \<open>The best-price rule\<close>

text \<open>
  Claim C5. The price \<open>get_lowest_bin\<close> returns is the listing board's lowest
  fixed price: the least starting bid among the fixed-price, unclaimed listings
  of the first resolution attempt that matches any. For an item found in both
  markets \<open>get_item_value\<close> reports as best price the higher of that price
  and the bazaar instant-sell price (the \<open>buy_price\<close> column), names the side
  that supplied it as the market, and reports best price times quantity as
  total value; found in one market only, that market's price is reported;
  found in neither, the best price is \<open>None\<close> and the total value 0. In
  \<open>calculate_chest_value\<close> the counter \<open>items_not_found\<close> is the number of
  named items found in neither market.
\<close>

theorem best_price_rule:
  "map_option bi_price (get_lowest_bin name adb) = lowest_fixed_price name adb
   \<and> (\<forall>p. lowest_fixed_price name adb = Some p \<longrightarrow>
        (\<exists>r \<in> set (hit_listings name adb). starting_bid r = p)
        \<and> (\<forall>r \<in> set (hit_listings name adb). p \<le> starting_bid r))
   \<and> (lowest_fixed_price name adb = None \<longleftrightarrow> hit_listings name adb = [])
   \<and> (\<forall>p b. lowest_fixed_price name adb = Some p \<and> get_product_info name bdb = Some b \<longrightarrow>
      best_price (get_item_value now_ms name quantity adb bdb) =
        Some (max (of_int p) (p_buy_price b))
      \<and> market (get_item_value now_ms name quantity adb bdb) =
        Some (if p_buy_price b \<le> of_int p then ''auction_house'' else ''bazaar'')
      \<and> total_value (get_item_value now_ms name quantity adb bdb) =
        max (of_int p) (p_buy_price b) * of_int quantity)
   \<and> (\<forall>p. lowest_fixed_price name adb = Some p \<and> get_product_info name bdb = None \<longrightarrow>
      best_price (get_item_value now_ms name quantity adb bdb) = Some (of_int p)
      \<and> market (get_item_value now_ms name quantity adb bdb) = Some ''auction_house''
      \<and> total_value (get_item_value now_ms name quantity adb bdb) = of_int p * of_int quantity)
   \<and> (\<forall>b. lowest_fixed_price name adb = None \<and> get_product_info name bdb = Some b \<longrightarrow>
      best_price (get_item_value now_ms name quantity adb bdb) = Some (p_buy_price b)
      \<and> market (get_item_value now_ms name quantity adb bdb) = Some ''bazaar''
      \<and> total_value (get_item_value now_ms name quantity adb bdb) =
        p_buy_price b * of_int quantity)
   \<and> (lowest_fixed_price name adb = None \<and> get_product_info name bdb = None \<longrightarrow>
      best_price (get_item_value now_ms name quantity adb bdb) = None
      \<and> market (get_item_value now_ms name quantity adb bdb) = None
      \<and> total_value (get_item_value now_ms name quantity adb bdb) = 0)
   \<and> items_not_found (summary (calculate_chest_value now_ms its cost adb bdb)) =
       length (filter (\<lambda>it. get_or (ci_name it) [] \<noteq> []
                          \<and> lowest_fixed_price (get_or (ci_name it) []) adb = None
                          \<and> get_product_info (get_or (ci_name it) []) bdb = None) its)"
proof (intro conjI allI impI)
  show "map_option bi_price (get_lowest_bin name adb) = lowest_fixed_price name adb"
    by (rule price_get_lowest_bin)
  show "lowest_fixed_price name adb = None \<longleftrightarrow> hit_listings name adb = []"
    by (rule lowest_fixed_price_None)
next
  fix p
  assume "lowest_fixed_price name adb = Some p"
  then show "\<exists>r \<in> set (hit_listings name adb). starting_bid r = p"
    "\<forall>r \<in> set (hit_listings name adb). p \<le> starting_bid r"
    by (simp_all add: lowest_fixed_price_least)
next
  fix p b
  assume both: "lowest_fixed_price name adb = Some p \<and> get_product_info name bdb = Some b"
  then obtain a where a: "get_lowest_bin name adb = Some a" "bi_price a = p"
    using get_lowest_bin_price(1) by blast
  from both have b: "get_product_info name bdb = Some b" by simp
  show "best_price (get_item_value now_ms name quantity adb bdb) =
        Some (max (of_int p) (p_buy_price b))"
    using a b by (simp add: best_price_both max_def)
  show "market (get_item_value now_ms name quantity adb bdb) =
        Some (if p_buy_price b \<le> of_int p then ''auction_house'' else ''bazaar'')"
    using a b by (simp add: best_price_both)
  show "total_value (get_item_value now_ms name quantity adb bdb) =
        max (of_int p) (p_buy_price b) * of_int quantity"
    using a b by (simp add: best_price_both max_def)
next
  fix p
  assume ah: "lowest_fixed_price name adb = Some p \<and> get_product_info name bdb = None"
  then obtain a where a: "get_lowest_bin name adb = Some a" "bi_price a = p"
    using get_lowest_bin_price(1) by blast
  from ah have b: "get_product_info name bdb = None" by simp
  show "best_price (get_item_value now_ms name quantity adb bdb) = Some (of_int p)"
    "market (get_item_value now_ms name quantity adb bdb) = Some ''auction_house''"
    "total_value (get_item_value now_ms name quantity adb bdb) = of_int p * of_int quantity"
    using a b by (simp_all add: best_price_auction_only)
next
  fix b
  assume bz: "lowest_fixed_price name adb = None \<and> get_product_info name bdb = Some b"
  then have a: "get_lowest_bin name adb = None" by (simp add: get_lowest_bin_price(2))
  from bz have b: "get_product_info name bdb = Some b" by simp
  show "best_price (get_item_value now_ms name quantity adb bdb) = Some (p_buy_price b)"
    "market (get_item_value now_ms name quantity adb bdb) = Some ''bazaar''"
    "total_value (get_item_value now_ms name quantity adb bdb) = p_buy_price b * of_int quantity"
    using a b by (simp_all add: best_price_bazaar_only)
next
  assume no: "lowest_fixed_price name adb = None \<and> get_product_info name bdb = None"
  then have a: "get_lowest_bin name adb = None" by (simp add: get_lowest_bin_price(2))
  from no have b: "get_product_info name bdb = None" by simp
  show "best_price (get_item_value now_ms name quantity adb bdb) = None"
    "market (get_item_value now_ms name quantity adb bdb) = None"
    "total_value (get_item_value now_ms name quantity adb bdb) = 0"
    using a b by (simp_all add: best_price_neither)
next
  have none: "get_lowest_bin n adb = None \<longleftrightarrow> lowest_fixed_price n adb = None" for n
    unfolding price_get_lowest_bin [symmetric] by simp
  show "items_not_found (summary (calculate_chest_value now_ms its cost adb bdb)) =
       length (filter (\<lambda>it. get_or (ci_name it) [] \<noteq> []
                          \<and> lowest_fixed_price (get_or (ci_name it) []) adb = None
                          \<and> get_product_info (get_or (ci_name it) []) bdb = None) its)"
    by (simp add: calculate_counts item_values_def filter_map o_def best_price_None_iff none)
qed


text \<open>
  Listings at 200 and 100 against instant-sell 150: the lowest fixed price is
  100 and the bazaar wins with 150. Listings at 250 and 200 against 150: the
  auction house wins with 200. An unknown item has no best price and is the
  one item counted as not found.
\<close>

theorem best_price_rule_witness:
  "map starting_bid (hit_listings ''Hyperion'' two_item_board) = [200, 100]
   \<and> lowest_fixed_price ''Hyperion'' two_item_board = Some 100
   \<and> best_price (get_item_value 3000 ''Hyperion'' 2 two_item_board two_item_bazaar) = Some 150
   \<and> market (get_item_value 3000 ''Hyperion'' 2 two_item_board two_item_bazaar)
       = Some ''bazaar''
   \<and> total_value (get_item_value 3000 ''Hyperion'' 2 two_item_board two_item_bazaar) = 300
   \<and> lowest_fixed_price ''Terminator'' two_item_board = Some 200
   \<and> best_price (get_item_value 3000 ''Terminator'' 1 two_item_board two_item_bazaar)
       = Some 200
   \<and> market (get_item_value 3000 ''Terminator'' 1 two_item_board two_item_bazaar)
       = Some ''auction_house''
   \<and> total_value (get_item_value 3000 ''Terminator'' 1 two_item_board two_item_bazaar) = 200
   \<and> best_price (get_item_value 3000 ''Nothing'' 3 two_item_board two_item_bazaar) = None
   \<and> total_value (get_item_value 3000 ''Nothing'' 3 two_item_board two_item_bazaar) = 0
   \<and> items_not_found (summary (calculate_chest_value 3000
        [\<lparr>ci_name = Some ''Hyperion'', ci_quantity = None\<rparr>,
         \<lparr>ci_name = Some ''Nothing'', ci_quantity = Some 3\<rparr>,
         \<lparr>ci_name = None, ci_quantity = Some 1\<rparr>] None
        two_item_board two_item_bazaar)) = 1"
proof -
  let ?its = "[\<lparr>ci_name = Some ''Hyperion'', ci_quantity = None\<rparr>,
         \<lparr>ci_name = Some ''Nothing'', ci_quantity = Some 3\<rparr>,
         \<lparr>ci_name = None, ci_quantity = Some 1\<rparr>]"
  have listings: "map starting_bid (hit_listings ''Hyperion'' two_item_board) = [200, 100]"
    by code_simp
  have h: "lowest_fixed_price ''Hyperion'' two_item_board = Some 100" by code_simp
  have t: "lowest_fixed_price ''Terminator'' two_item_board = Some 200" by code_simp
  have n: "lowest_fixed_price ''Nothing'' two_item_board = None" by code_simp
  have hb: "map_option p_buy_price (get_product_info ''Hyperion'' two_item_bazaar) = Some 150"
    by code_simp
  have tb: "map_option p_buy_price (get_product_info ''Terminator'' two_item_bazaar) = Some 150"
    by code_simp
  have nb: "get_product_info ''Nothing'' two_item_bazaar = None" by code_simp
  have hyperion:
    "best_price (get_item_value 3000 ''Hyperion'' 2 two_item_board two_item_bazaar) = Some 150
      \<and> market (get_item_value 3000 ''Hyperion'' 2 two_item_board two_item_bazaar)
          = Some ''bazaar''
      \<and> total_value (get_item_value 3000 ''Hyperion'' 2 two_item_board two_item_bazaar) = 300"
    using best_price_rule [of "''Hyperion''" two_item_board two_item_bazaar 3000 2 "[]" None]
      h hb by auto
  have terminator:
    "best_price (get_item_value 3000 ''Terminator'' 1 two_item_board two_item_bazaar) = Some 200
      \<and> market (get_item_value 3000 ''Terminator'' 1 two_item_board two_item_bazaar)
          = Some ''auction_house''
      \<and> total_value (get_item_value 3000 ''Terminator'' 1 two_item_board two_item_bazaar) = 200"
    using best_price_rule [of "''Terminator''" two_item_board two_item_bazaar 3000 1 "[]" None]
      t tb by auto
  have neither:
    "best_price (get_item_value 3000 ''Nothing'' 3 two_item_board two_item_bazaar) = None
      \<and> total_value (get_item_value 3000 ''Nothing'' 3 two_item_board two_item_bazaar) = 0
      \<and> items_not_found (summary (calculate_chest_value 3000 ?its None
            two_item_board two_item_bazaar)) = 1"
    using best_price_rule [of "''Nothing''" two_item_board two_item_bazaar 3000 3 ?its None]
      h n nb
    by (simp add: get_or_def)
  from listings h t hyperion terminator neither show ?thesis by simp
qed

text \<open>
  Claim C9. When the listing board's lowest fixed price, the least starting
  bid among the listings of the attempt that hits, equals the bazaar
  instant-sell price, the best price is that lowest fixed price and the market
  is the auction house.
\<close>

theorem tie_goes_to_auction_house:
  assumes "lowest_fixed_price name adb = Some p"
    and "get_product_info name bdb = Some b"
    and "of_int p = p_buy_price b"
  shows "best_price (get_item_value now_ms name quantity adb bdb) = Some (of_int p)
       \<and> market (get_item_value now_ms name quantity adb bdb) = Some ''auction_house''
       \<and> total_value (get_item_value now_ms name quantity adb bdb) = of_int p * of_int quantity
       \<and> (\<exists>r \<in> set (hit_listings name adb). starting_bid r = p)
       \<and> (\<forall>r \<in> set (hit_listings name adb). p \<le> starting_bid r)"
proof -
  from assms(1) obtain a where a: "get_lowest_bin name adb = Some a" "bi_price a = p"
    using get_lowest_bin_price(1) by blast
  with assms(2,3) have "best_price (get_item_value now_ms name quantity adb bdb) = Some (of_int p)
       \<and> market (get_item_value now_ms name quantity adb bdb) = Some ''auction_house''
       \<and> total_value (get_item_value now_ms name quantity adb bdb) = of_int p * of_int quantity"
    by (simp add: best_price_both)
  with lowest_fixed_price_least [OF assms(1)] show ?thesis by simp
qed

text \<open>
  Listings at 200 and 150 and an instant-sell price of 150, quantity 2: the tie
  is on the lowest fixed price 150, and the auction house is named.
\<close>

theorem tie_goes_to_auction_house_witness:
  "map starting_bid (hit_listings ''Hyperion'' tie_board) = [200, 150]
   \<and> lowest_fixed_price ''Hyperion'' tie_board = Some 150
   \<and> map_option p_buy_price
        (get_product_info ''Hyperion'' (bazaar_of [(''Hyperion'', quote 160 150 700)]))
       = Some 150
   \<and> best_price (get_item_value 3000 ''Hyperion'' 2 tie_board
        (bazaar_of [(''Hyperion'', quote 160 150 700)])) = Some 150
   \<and> market (get_item_value 3000 ''Hyperion'' 2 tie_board
        (bazaar_of [(''Hyperion'', quote 160 150 700)])) = Some ''auction_house''
   \<and> total_value (get_item_value 3000 ''Hyperion'' 2 tie_board
        (bazaar_of [(''Hyperion'', quote 160 150 700)])) = 300"
proof -
  let ?bdb = "bazaar_of [(''Hyperion'', quote 160 150 700)]"
  let ?b = "\<lparr>p_product_id = ''Hyperion'', p_sell_price = 160, p_buy_price = 150,
      p_sell_volume = 0, p_buy_volume = 0, p_sell_orders = 0, p_buy_orders = 0,
      p_sell_moving_week = 0, p_buy_moving_week = 700\<rparr>"
  have listings: "map starting_bid (hit_listings ''Hyperion'' tie_board) = [200, 150]"
    by code_simp
  have a: "lowest_fixed_price ''Hyperion'' tie_board = Some 150" by code_simp
  have b: "get_product_info ''Hyperion'' ?bdb = Some ?b" by code_simp
  have tie: "of_int 150 = p_buy_price ?b" by simp
  from tie_goes_to_auction_house [OF a b tie, of 3000 2] listings a b show ?thesis by simp
qed

section \<open>Sales velocity\<close>

lemma py_round2_nonneg:
  assumes "0 \<le> x" shows "0 \<le> py_round2 x"
proof -
  have "0 \<le> x * 100" using assms by simp
  then have f: "0 \<le> \<lfloor>x * 100\<rfloor>" by simp
  then have "(0::rat) \<le> of_int \<lfloor>x * 100\<rfloor>" "(0::rat) \<le> of_int (\<lfloor>x * 100\<rfloor> + 1)" by simp_all
  then show ?thesis
    by (simp add: py_round2_def Let_def)
qed

lemma py_round2_examples:
  "py_round2 (1 / 7) = 7 / 50" "py_round2 100 = 100"
  by code_simp+

lemma get_sales_per_day_week:
  "get_sales_per_day name 7 now_ms adb =
     (case sales_in_window name 7 now_ms adb of
        [] \<Rightarrow> Inr None
      | s # ss \<Rightarrow> Inr (Some
          \<lparr>ss_item_name = name,
           total_sales = length (s # ss),
           daily_sales = of_nat (length (s # ss)) / 7,
           avg_sale_price = of_int (sum_list (map price (s # ss))) / of_nat (length (s # ss)),
           min_sale_price = fold min (map price ss) (price s),
           max_sale_price = fold max (map price ss) (price s),
           period_days = 7\<rparr>))"
  by (simp add: get_sales_per_day_def split: list.splits)

lemma sales_per_day_check_auction_house:
  "sales_per_day (check_auction_house now_ms name quantity adb
       (initial_item_value name quantity)) =
     (if get_lowest_bin name adb \<noteq> None \<and> sales_in_window name 7 now_ms adb \<noteq> []
      then py_round2 (of_nat (length (sales_in_window name 7 now_ms adb)) / 7)
      else - 1)"
  by (auto simp: check_auction_house_def get_sales_per_day_week initial_item_value_def Let_def
      split: option.splits list.splits)

lemma sales_per_day_check_bazaar:
  "sales_per_day (check_bazaar name quantity bdb r) =
     (case get_product_info name bdb of
        None \<Rightarrow> sales_per_day r
      | Some b \<Rightarrow>
          if sales_per_day r = - 1 \<and> p_buy_moving_week b \<noteq> 0
          then py_round2 (of_int (p_buy_moving_week b) / 7)
          else sales_per_day r)"
  by (simp add: check_bazaar_def Let_def split: option.splits)

lemma auction_rate_not_sentinel:
  "py_round2 (of_nat (length (xs :: sale_row list)) / 7) \<noteq> - 1"
proof -
  have "0 \<le> py_round2 (of_nat (length xs) / 7)"
    by (rule py_round2_nonneg) simp
  then show ?thesis by simp
qed

lemma sales_per_day_get_item_value:
  "sales_per_day (get_item_value now_ms name quantity adb bdb) =
     (if get_lowest_bin name adb \<noteq> None \<and> sales_in_window name 7 now_ms adb \<noteq> []
      then py_round2 (of_nat (length (sales_in_window name 7 now_ms adb)) / 7)
      else case get_product_info name bdb of
             None \<Rightarrow> - 1
           | Some b \<Rightarrow> if p_buy_moving_week b = 0 then - 1
                       else py_round2 (of_int (p_buy_moving_week b) / 7))"
  by (simp add: get_item_value_def sales_per_day_determine sales_per_day_check_bazaar
      sales_per_day_check_auction_house auction_rate_not_sentinel split: option.splits)

lemma sales_in_window_filter_name:
  "sales_in_window name days now_ms
     (adb\<lparr>auction_sales := filter (\<lambda>s. s_item_name s = name) (auction_sales adb)\<rparr>) =
   sales_in_window name days now_ms adb"
  by (simp add: sales_in_window_def conj_commute cong: conj_cong)

text \<open>
  Claim C6, as amended. When the item has a listing and sale events under its
  name in the last 7 days, \<open>sales_per_day\<close> is that count divided by 7,
  rounded to two decimals, and is not -1. Otherwise it is -1 when the bazaar
  has no entry for the item or the entry's buy moving week is 0, and the buy
  moving week divided by 7, rounded to two decimals, when that is not 0 (not
  -1 when it is positive). A buy moving week of exactly 0 thus gives -1, as
  missing data does.
\<close>

theorem velocity_sentinel:
  "(get_lowest_bin name adb \<noteq> None \<and> sales_in_window name 7 now_ms adb \<noteq> [] \<longrightarrow>
      sales_per_day (get_item_value now_ms name quantity adb bdb) =
        py_round2 (of_nat (length (sales_in_window name 7 now_ms adb)) / 7)
      \<and> sales_per_day (get_item_value now_ms name quantity adb bdb) \<noteq> - 1)
   \<and> (get_lowest_bin name adb = None \<or> sales_in_window name 7 now_ms adb = [] \<longrightarrow>
      (get_product_info name bdb = None \<longrightarrow>
         sales_per_day (get_item_value now_ms name quantity adb bdb) = - 1)
      \<and> (\<forall>b. get_product_info name bdb = Some b \<longrightarrow>
           (p_buy_moving_week b = 0 \<longrightarrow>
              sales_per_day (get_item_value now_ms name quantity adb bdb) = - 1)
           \<and> (p_buy_moving_week b \<noteq> 0 \<longrightarrow>
              sales_per_day (get_item_value now_ms name quantity adb bdb) =
                py_round2 (of_int (p_buy_moving_week b) / 7))
           \<and> (0 < p_buy_moving_week b \<longrightarrow>
              sales_per_day (get_item_value now_ms name quantity adb bdb) \<noteq> - 1)))"
proof (intro conjI allI impI)
  assume a: "get_lowest_bin name adb \<noteq> None \<and> sales_in_window name 7 now_ms adb \<noteq> []"
  then show "sales_per_day (get_item_value now_ms name quantity adb bdb) =
        py_round2 (of_nat (length (sales_in_window name 7 now_ms adb)) / 7)"
    by (simp add: sales_per_day_get_item_value)
  then show "sales_per_day (get_item_value now_ms name quantity adb bdb) \<noteq> - 1"
    by (simp add: auction_rate_not_sentinel)
next
  assume n: "get_lowest_bin name adb = None \<or> sales_in_window name 7 now_ms adb = []"
  show "sales_per_day (get_item_value now_ms name quantity adb bdb) = - 1"
    if "get_product_info name bdb = None"
    using that n by (auto simp: sales_per_day_get_item_value)
  fix b
  assume b: "get_product_info name bdb = Some b"
  show "sales_per_day (get_item_value now_ms name quantity adb bdb) = - 1"
    if "p_buy_moving_week b = 0"
    using that b n by (auto simp: sales_per_day_get_item_value)
  show nz: "sales_per_day (get_item_value now_ms name quantity adb bdb) =
      py_round2 (of_int (p_buy_moving_week b) / 7)"
    if "p_buy_moving_week b \<noteq> 0"
    using that b n by (auto simp: sales_per_day_get_item_value)
  show "sales_per_day (get_item_value now_ms name quantity adb bdb) \<noteq> - 1"
    if pos: "0 < p_buy_moving_week b"
  proof -
    have "0 \<le> py_round2 (of_int (p_buy_moving_week b) / 7)"
      using pos by (intro py_round2_nonneg) simp
    with nz pos show ?thesis by simp
  qed
qed

text \<open>
  One sale in the window gives 0.14; no sale and a buy moving week of 700 gives
  100; a buy moving week of 0 gives -1, and so does an empty bazaar.
\<close>

theorem velocity_sentinel_witness:
  "sales_per_day (get_item_value 3000 ''Hyperion'' 1
      (ingest_all [(1000, [bin_listing ''a'' ''Hyperion'' 100, bin_listing ''b'' ''Hyperion'' 120]),
                   (2000, [bin_listing ''b'' ''Hyperion'' 120])] empty_auction_db)
      empty_bazaar_db) = 7 / 50
   \<and> sales_per_day (get_item_value 3000 ''WHEAT'' 1 empty_auction_db
        (bazaar_of [(''WHEAT'', quote 3 2 700)])) = 100
   \<and> sales_per_day (get_item_value 3000 ''WHEAT'' 1 empty_auction_db
        (bazaar_of [(''WHEAT'', quote 3 2 0)])) = - 1
   \<and> sales_per_day (get_item_value 3000 ''WHEAT'' 1 empty_auction_db empty_bazaar_db) = - 1"
proof -
  let ?adb = "ingest_all
      [(1000, [bin_listing ''a'' ''Hyperion'' 100, bin_listing ''b'' ''Hyperion'' 120]),
       (2000, [bin_listing ''b'' ''Hyperion'' 120])] empty_auction_db"
  have listed: "get_lowest_bin ''Hyperion'' ?adb \<noteq> None" by code_simp
  have sold: "length (sales_in_window ''Hyperion'' 7 3000 ?adb) = 1" by code_simp
  then have "sales_in_window ''Hyperion'' 7 3000 ?adb \<noteq> []" by auto
  with listed velocity_sentinel [of "''Hyperion''" ?adb 3000 1 empty_bazaar_db]
  have "sales_per_day (get_item_value 3000 ''Hyperion'' 1 ?adb empty_bazaar_db) =
      py_round2 (of_nat (length (sales_in_window ''Hyperion'' 7 3000 ?adb)) / 7)"
    by blast
  then have rate: "sales_per_day (get_item_value 3000 ''Hyperion'' 1 ?adb empty_bazaar_db) = 7 / 50"
    by (simp add: sold py_round2_examples)
  have unlisted: "get_lowest_bin ''WHEAT'' empty_auction_db = None" by code_simp
  let ?busy = "\<lparr>p_product_id = ''WHEAT'', p_sell_price = 3, p_buy_price = 2,
      p_sell_volume = 0, p_buy_volume = 0, p_sell_orders = 0, p_buy_orders = 0,
      p_sell_moving_week = 0, p_buy_moving_week = 700\<rparr>"
  let ?idle = "\<lparr>p_product_id = ''WHEAT'', p_sell_price = 3, p_buy_price = 2,
      p_sell_volume = 0, p_buy_volume = 0, p_sell_orders = 0, p_buy_orders = 0,
      p_sell_moving_week = 0, p_buy_moving_week = 0\<rparr>"
  have busy: "get_product_info ''WHEAT'' (bazaar_of [(''WHEAT'', quote 3 2 700)]) = Some ?busy"
    by code_simp
  have idle: "get_product_info ''WHEAT'' (bazaar_of [(''WHEAT'', quote 3 2 0)]) = Some ?idle"
    by code_simp
  have missing: "get_product_info ''WHEAT'' empty_bazaar_db = None" by code_simp
  have week: "sales_per_day (get_item_value 3000 ''WHEAT'' 1 empty_auction_db
        (bazaar_of [(''WHEAT'', quote 3 2 700)])) = 100"
    using velocity_sentinel
      [of "''WHEAT''" empty_auction_db 3000 1 "bazaar_of [(''WHEAT'', quote 3 2 700)]"]
      unlisted busy
    by (simp add: py_round2_examples)
  have zero: "sales_per_day (get_item_value 3000 ''WHEAT'' 1 empty_auction_db
        (bazaar_of [(''WHEAT'', quote 3 2 0)])) = - 1"
    using velocity_sentinel
      [of "''WHEAT''" empty_auction_db 3000 1 "bazaar_of [(''WHEAT'', quote 3 2 0)]"]
      unlisted idle
    by simp
  have nodata: "sales_per_day (get_item_value 3000 ''WHEAT'' 1 empty_auction_db
        empty_bazaar_db) = - 1"
    using velocity_sentinel [of "''WHEAT''" empty_auction_db 3000 1 empty_bazaar_db]
      unlisted missing
    by simp
  from rate week zero nodata show ?thesis by simp
qed

text \<open>
  The claim as stated fails: no auction sale and a bazaar buy moving week of
  exactly 0 yields -1, not 0.
\<close>

theorem velocity_sentinel_counterexample:
  "sales_in_window ''WHEAT'' 7 3000 empty_auction_db = []
   \<and> map_option p_buy_moving_week
        (get_product_info ''WHEAT'' (bazaar_of [(''WHEAT'', quote 3 2 0)])) = Some 0
   \<and> sales_per_day (get_item_value 3000 ''WHEAT'' 1 empty_auction_db
        (bazaar_of [(''WHEAT'', quote 3 2 0)])) = - 1
   \<and> sales_per_day (get_item_value 3000 ''WHEAT'' 1 empty_auction_db
        (bazaar_of [(''WHEAT'', quote 3 2 0)])) \<noteq> 0"
  by code_simp

text \<open>
  Claim C10, as amended. \<open>get_sales_per_day\<close> counts only sale events whose
  item name equals the given name exactly: dropping all other sale events does
  not change its result. \<open>get_item_value\<close> passes it the name as given; when
  no sale event carries exactly that name, no auction rate is found and
  \<open>sales_per_day\<close> is -1 unless the bazaar entry has a buy moving week other
  than 0.
\<close>

theorem velocity_uses_raw_name:
  "get_sales_per_day name days now_ms
     (adb\<lparr>auction_sales := filter (\<lambda>s. s_item_name s = name) (auction_sales adb)\<rparr>) =
   get_sales_per_day name days now_ms adb
   \<and> ((\<forall>s \<in> set (auction_sales adb). s_item_name s \<noteq> name) \<longrightarrow>
        get_sales_per_day name 7 now_ms adb = Inr None
        \<and> sales_per_day (get_item_value now_ms name quantity adb bdb) =
            (case get_product_info name bdb of
               None \<Rightarrow> - 1
             | Some b \<Rightarrow> if p_buy_moving_week b = 0 then - 1
                         else py_round2 (of_int (p_buy_moving_week b) / 7)))"
proof (intro conjI impI)
  show "get_sales_per_day name days now_ms
     (adb\<lparr>auction_sales := filter (\<lambda>s. s_item_name s = name) (auction_sales adb)\<rparr>) =
   get_sales_per_day name days now_ms adb"
    by (simp only: get_sales_per_day_def sales_in_window_filter_name)
next
  assume "\<forall>s \<in> set (auction_sales adb). s_item_name s \<noteq> name"
  then have w: "sales_in_window name 7 now_ms adb = []"
    by (simp add: sales_in_window_def filter_empty_conv)
  then show "get_sales_per_day name 7 now_ms adb = Inr None"
    by (simp add: get_sales_per_day_week)
  from w show "sales_per_day (get_item_value now_ms name quantity adb bdb) =
            (case get_product_info name bdb of
               None \<Rightarrow> - 1
             | Some b \<Rightarrow> if p_buy_moving_week b = 0 then - 1
                         else py_round2 (of_int (p_buy_moving_week b) / 7))"
    by (simp add: sales_per_day_get_item_value)
qed

text \<open>
  The listing \<open>Aspect of the End\<close> is found for \<open>ASPECT_OF_THE_END\<close> through
  the case-insensitive underscore-to-space attempt; its one sale event is
  stored under the listing's name, so no rate is found for the name as given.
\<close>

theorem velocity_uses_raw_name_witness:
  "map item_name (auctions (ingest_all
      [(1000, [bin_listing ''a'' ''Aspect of the End'' 100,
               bin_listing ''b'' ''Aspect of the End'' 120]),
       (2000, [bin_listing ''b'' ''Aspect of the End'' 120])] empty_auction_db))
     = [''Aspect of the End'']
   \<and> map s_item_name (auction_sales (ingest_all
      [(1000, [bin_listing ''a'' ''Aspect of the End'' 100,
               bin_listing ''b'' ''Aspect of the End'' 120]),
       (2000, [bin_listing ''b'' ''Aspect of the End'' 120])] empty_auction_db))
     = [''Aspect of the End'']
   \<and> map_option bi_item_name (get_lowest_bin ''ASPECT_OF_THE_END'' (ingest_all
      [(1000, [bin_listing ''a'' ''Aspect of the End'' 100,
               bin_listing ''b'' ''Aspect of the End'' 120]),
       (2000, [bin_listing ''b'' ''Aspect of the End'' 120])] empty_auction_db))
     = Some ''Aspect of the End''
   \<and> get_sales_per_day ''ASPECT_OF_THE_END'' 7 3000 (ingest_all
      [(1000, [bin_listing ''a'' ''Aspect of the End'' 100,
               bin_listing ''b'' ''Aspect of the End'' 120]),
       (2000, [bin_listing ''b'' ''Aspect of the End'' 120])] empty_auction_db) = Inr None
   \<and> sales_per_day (get_item_value 3000 ''ASPECT_OF_THE_END'' 1 (ingest_all
      [(1000, [bin_listing ''a'' ''Aspect of the End'' 100,
               bin_listing ''b'' ''Aspect of the End'' 120]),
       (2000, [bin_listing ''b'' ''Aspect of the End'' 120])] empty_auction_db)
      empty_bazaar_db) = - 1"
proof -
  let ?adb = "ingest_all
      [(1000, [bin_listing ''a'' ''Aspect of the End'' 100,
               bin_listing ''b'' ''Aspect of the End'' 120]),
       (2000, [bin_listing ''b'' ''Aspect of the End'' 120])] empty_auction_db"
  have listed: "map item_name (auctions ?adb) = [''Aspect of the End'']" by code_simp
  have sales: "map s_item_name (auction_sales ?adb) = [''Aspect of the End'']" by code_simp
  have found: "map_option bi_item_name (get_lowest_bin ''ASPECT_OF_THE_END'' ?adb)
      = Some ''Aspect of the End''" by code_simp
  have missing: "get_product_info ''ASPECT_OF_THE_END'' empty_bazaar_db = None" by code_simp
  have "\<forall>n \<in> set (map s_item_name (auction_sales ?adb)). n \<noteq> ''ASPECT_OF_THE_END''"
    unfolding sales by simp
  then have other: "\<forall>s \<in> set (auction_sales ?adb). s_item_name s \<noteq> ''ASPECT_OF_THE_END''"
    by simp
  from velocity_uses_raw_name [of "''ASPECT_OF_THE_END''" 7 3000 ?adb 1 empty_bazaar_db] other
  have "get_sales_per_day ''ASPECT_OF_THE_END'' 7 3000 ?adb = Inr None
      \<and> sales_per_day (get_item_value 3000 ''ASPECT_OF_THE_END'' 1 ?adb empty_bazaar_db) = - 1"
    by (simp add: missing)
  with listed sales found show ?thesis by simp
qed

text \<open>
  The claim as stated fails: \<open>aspect\<close> was listed and sold, now only
  \<open>Aspect\<close> is listed. The query \<open>aspect\<close> finds the listing through the
  case-insensitive attempt only, the bazaar has no entry, and yet the sale
  event stored under \<open>aspect\<close> gives a rate of 0.14.
\<close>

theorem velocity_uses_raw_name_counterexample:
  "map item_name (auctions (ingest_all
      [(1000, [bin_listing ''a'' ''aspect'' 100]),
       (2000, [bin_listing ''b'' ''Aspect'' 100])] empty_auction_db)) = [''Aspect'']
   \<and> map_option bi_item_name (get_lowest_bin ''aspect'' (ingest_all
      [(1000, [bin_listing ''a'' ''aspect'' 100]),
       (2000, [bin_listing ''b'' ''Aspect'' 100])] empty_auction_db)) = Some ''Aspect''
   \<and> get_product_info ''aspect'' empty_bazaar_db = None
   \<and> sales_per_day (get_item_value 3000 ''aspect'' 1 (ingest_all
      [(1000, [bin_listing ''a'' ''aspect'' 100]),
       (2000, [bin_listing ''b'' ''Aspect'' 100])] empty_auction_db) empty_bazaar_db) = 7 / 50
   \<and> sales_per_day (get_item_value 3000 ''aspect'' 1 (ingest_all
      [(1000, [bin_listing ''a'' ''aspect'' 100]),
       (2000, [bin_listing ''b'' ''Aspect'' 100])] empty_auction_db) empty_bazaar_db) \<noteq> - 1"
  by code_simp

section \<open>A successful bazaar poll\<close>

lemma insert_many_fresh:
  "distinct (map key rs) \<Longrightarrow> key ` set rs \<inter> key ` set t = {} \<Longrightarrow>
   insert_many key rs t = Inr (t @ rs)"
proof (induction rs arbitrary: t)
  case Nil
  show ?case by simp
next
  case (Cons r rs)
  from Cons.prems(2) have "key r \<notin> key ` set t" by auto
  then have fresh: "\<not> (\<exists>x \<in> set t. key x = key r)" by (metis imageI)
  from Cons.prems have "distinct (map key rs)" and "key ` set rs \<inter> key ` set (t @ [r]) = {}"
    by auto
  then have "insert_many key rs (t @ [r]) = Inr ((t @ [r]) @ rs)" by (rule Cons.IH)
  with fresh show ?case by simp
qed

lemma distinct_map_pair:
  "distinct (map f xs) \<Longrightarrow> distinct (map (\<lambda>x. (f x, g x)) xs)"
  by (induction xs) (auto simp: image_iff)

text \<open>
  The example store \<open>bazaar_of\<close> is what \<open>store_bazaar_data\<close> commits on a
  fresh database for a payload with \<open>success\<close> set, \<open>lastUpdated\<close> 5000 and
  one entry per product id.
\<close>

lemma store_bazaar_data_fresh:
  assumes "distinct (map fst ps)"
  shows "store_bazaar_data now_ms
           (Some \<lparr>success = Some True, lastUpdated = Some 5000, products = ps\<rparr>) True
           empty_bazaar_db = Inr (bazaar_of ps)"
proof -
  let ?rows = "map (bazaar_tuple 5000) ps"
  have ids: "map product_id ?rows = map fst ps"
    by (simp add: bazaar_tuple_def Let_def case_prod_beta o_def)
  have d1: "distinct (map product_id ?rows)" using assms by (simp only: ids)
  from d1 have d2: "distinct (map (\<lambda>r. (product_id r, timestamp r)) ?rows)"
    by (rule distinct_map_pair)
  have cur: "insert_many product_id ?rows [] = Inr ?rows"
    using insert_many_fresh [OF d1, of "[]"] by simp
  have hist: "insert_many (\<lambda>r. (product_id r, timestamp r)) ?rows [] = Inr ?rows"
    using insert_many_fresh [OF d2, of "[]"] by simp
  show ?thesis
    by (simp add: store_bazaar_data_def get_or_def Let_def cur hist empty_bazaar_db_def
        bazaar_of_def)
qed

end
